theory Spec2Isabelle
  imports Main "HOL-Library.Word" "HOL-Library.AList"
begin

unbundle bit_operations_syntax

section \<open>Enumerations and constants\<close>

text \<open>
  The enumerations live in \<^verbatim>\<open>sftp-enums.ts\<close>, which is not among the sources; their
  numeric values are taken from section 6 of the specification.
\<close>

type_synonym byte = "8 word"
type_synonym bytes = "byte list"

text \<open>Modelled from the spec: the open-flag bits of \<^verbatim>\<open>SftpOpenFlags\<close> (section 6).\<close>

definition READ :: "32 word" where "READ = 1"
definition WRITE :: "32 word" where "WRITE = 2"
definition APPEND :: "32 word" where "APPEND = 4"
definition CREATE :: "32 word" where "CREATE = 8"
definition TRUNC :: "32 word" where "TRUNC = 16"
definition EXCL :: "32 word" where "EXCL = 32"
definition ALL_FLAGS :: "32 word" where "ALL_FLAGS = READ OR WRITE OR APPEND OR CREATE OR TRUNC OR EXCL"

section \<open>Flags translator (\<^verbatim>\<open>SftpFlags\<close>)\<close>

text \<open>
  \<^verbatim>\<open>toNumber\<close> accepts a string or (by its \<^verbatim>\<open>typeof\<close> test) a number. A thrown
  \<^verbatim>\<open>Error\<close> is the left summand, carrying the message.
\<close>

datatype flags_arg = FlagsStr string | FlagsNum "32 word"

definition toNumber :: "flags_arg \<Rightarrow> string + 32 word" where
  "toNumber flags =
    (case flags of
       FlagsNum n \<Rightarrow> Inr (n AND ALL_FLAGS)
     | FlagsStr s \<Rightarrow>
        (if s = ''r'' then Inr READ
         else if s = ''r+'' then Inr (READ OR WRITE)
         else if s = ''w'' then Inr (WRITE OR CREATE OR TRUNC)
         else if s = ''w+'' then Inr (WRITE OR CREATE OR TRUNC OR READ)
         else if s = ''wx'' \<or> s = ''xw'' then Inr (WRITE OR CREATE OR EXCL)
         else if s = ''wx+'' \<or> s = ''xw+'' then Inr (WRITE OR CREATE OR EXCL OR READ)
         else if s = ''a'' then Inr (WRITE OR CREATE OR APPEND)
         else if s = ''a+'' then Inr (WRITE OR CREATE OR APPEND OR READ)
         else if s = ''ax'' \<or> s = ''xa'' then Inr (WRITE OR CREATE OR APPEND OR EXCL)
         else if s = ''ax+'' \<or> s = ''xa+'' then Inr (WRITE OR CREATE OR APPEND OR EXCL OR READ)
         else Inl (''Invalid flags '' @ [CHR 0x27] @ s @ [CHR 0x27])))"

text \<open>The four normalization steps of \<^verbatim>\<open>fromNumber\<close>, one definition per statement.\<close>

definition norm_mask :: "32 word \<Rightarrow> 32 word" where
  "norm_mask flags = flags AND ALL_FLAGS"

definition norm_excl :: "32 word \<Rightarrow> 32 word" where
  "norm_excl flags = (if flags AND EXCL \<noteq> 0 then flags AND (ALL_FLAGS XOR TRUNC) else flags)"

definition norm_trunc :: "32 word \<Rightarrow> 32 word" where
  "norm_trunc flags = (if flags AND TRUNC \<noteq> 0 then flags AND (ALL_FLAGS XOR APPEND) else flags)"

definition norm_rw :: "32 word \<Rightarrow> 32 word" where
  "norm_rw flags = (if flags AND (READ OR WRITE) = 0 then flags OR READ else flags)"

definition norm_create :: "32 word \<Rightarrow> 32 word" where
  "norm_create flags =
     (if flags AND CREATE = 0 then flags AND (READ OR WRITE) else flags OR WRITE)"

definition normalize_flags :: "32 word \<Rightarrow> 32 word" where
  "normalize_flags flags = norm_create (norm_rw (norm_trunc (norm_excl (norm_mask flags))))"

text \<open>The final \<^verbatim>\<open>switch\<close>; falling out of it reaches the \<^verbatim>\<open>throw\<close>.\<close>

definition flags_table :: "32 word \<Rightarrow> string + string list" where
  "flags_table flags =
     (if flags = 1 then Inr [''r'']
      else if flags = 2 \<or> flags = 3 then Inr [''r+'']
      else if flags = 10 then Inr [''wx'', ''r+'']
      else if flags = 11 then Inr [''wx+'', ''r+'']
      else if flags = 14 then Inr [''a'']
      else if flags = 15 then Inr [''a+'']
      else if flags = 26 then Inr [''w'']
      else if flags = 27 then Inr [''w+'']
      else if flags = 42 then Inr [''wx'']
      else if flags = 43 then Inr [''wx+'']
      else if flags = 46 then Inr [''ax'']
      else if flags = 47 then Inr [''ax+'']
      else Inl ''Unsupported flags'')"

definition fromNumber :: "32 word \<Rightarrow> string + string list" where
  "fromNumber flags = flags_table (normalize_flags flags)"

definition tabulated :: "32 word list" where
  "tabulated = [1, 2, 3, 10, 11, 14, 15, 26, 27, 42, 43, 46, 47]"

section \<open>JavaScript numbers\<close>

text \<open>
  Numbers that the program treats as integers are modelled as \<open>int\<close>. The bitwise operators
  of JavaScript convert their operands to 32-bit two's complement and return a signed 32-bit
  value; \<open>undefined\<close> is \<open>None\<close> and converts to 0.
\<close>

definition js_and :: "int \<Rightarrow> int \<Rightarrow> int" where
  "js_and a b = sint ((word_of_int a :: 32 word) AND word_of_int b)"

definition js_or :: "int \<Rightarrow> int \<Rightarrow> int" where
  "js_or a b = sint ((word_of_int a :: 32 word) OR word_of_int b)"

definition js_not :: "int \<Rightarrow> int" where
  "js_not a = sint (NOT (word_of_int a :: 32 word))"

definition js_or0 :: "int option \<Rightarrow> int" where
  "js_or0 v = (case v of None \<Rightarrow> 0 | Some n \<Rightarrow> sint (word_of_int n :: 32 word))"

definition js_num :: "int option \<Rightarrow> int" where
  "js_num v = (case v of None \<Rightarrow> 0 | Some n \<Rightarrow> n)"

text \<open>A \<^verbatim>\<open>Date\<close> is its \<^verbatim>\<open>getTime()\<close>, milliseconds since the epoch. The quotient
  \<^verbatim>\<open>getTime() / 1000\<close> reaches an integer writer, whose conversion drops the fraction.\<close>

definition seconds_of :: "int \<Rightarrow> int" where
  "seconds_of ms = (if 0 \<le> ms then ms div 1000 else - ((- ms) div 1000))"

section \<open>Packet codec\<close>

text \<open>
  Modelled from the spec: \<^verbatim>\<open>SftpPacketWriter\<close> and \<^verbatim>\<open>SftpPacketReader\<close> of
  \<^verbatim>\<open>sftp-packet.ts\<close>, which is not among the sources. Following sections 3, 4.1 and 6:
  all integers are big-endian; a string or data field is a 32-bit length followed by the raw
  bytes; a frame is a 32-bit length (of what follows), a type byte, a 32-bit request id (absent
  on INIT and VERSION) and the payload; a read beyond the end of the frame fails with
  \<^verbatim>\<open>BAD_MESSAGE\<close>. A reader is the sequence of bytes after its cursor. The writer's capacity
  (sized by the engine so that its frames fit) is not modelled. Strings are the bytes of their
  encoding, one \<open>char\<close> per byte.
\<close>

definition be_bytes32 :: "32 word \<Rightarrow> bytes" where
  "be_bytes32 w = [ucast (drop_bit 24 w), ucast (drop_bit 16 w), ucast (drop_bit 8 w), ucast w]"

definition be_bytes64 :: "64 word \<Rightarrow> bytes" where
  "be_bytes64 w = [ucast (drop_bit 56 w), ucast (drop_bit 48 w), ucast (drop_bit 40 w),
     ucast (drop_bit 32 w), ucast (drop_bit 24 w), ucast (drop_bit 16 w), ucast (drop_bit 8 w),
     ucast w]"

definition be_word :: "bytes \<Rightarrow> 'a::len word" where
  "be_word bs = foldl (\<lambda>acc b. push_bit 8 acc OR ucast b) 0 bs"

definition byte_of_char :: "char \<Rightarrow> byte" where
  "byte_of_char c = of_nat (of_char c)"

definition char_of_byte :: "byte \<Rightarrow> char" where
  "char_of_byte b = char_of (unat b)"

definition enc_byte :: "int \<Rightarrow> bytes" where
  "enc_byte v = [word_of_int v]"

definition enc_int32 :: "int \<Rightarrow> bytes" where
  "enc_int32 v = be_bytes32 (word_of_int v)"

definition enc_int64 :: "int \<Rightarrow> bytes" where
  "enc_int64 v = be_bytes64 (word_of_int v)"

definition enc_data :: "bytes \<Rightarrow> bytes" where
  "enc_data bs = enc_int32 (int (length bs)) @ bs"

definition enc_string :: "string \<Rightarrow> bytes" where
  "enc_string s = enc_data (map byte_of_char s)"

text \<open>A thrown error is the left summand; \<open>bnd\<close> chains steps that may throw.\<close>

definition bnd :: "string + 'a \<Rightarrow> ('a \<Rightarrow> string + 'b) \<Rightarrow> string + 'b" where
  "bnd m f = (case m of Inl e \<Rightarrow> Inl e | Inr x \<Rightarrow> f x)"

definition take_bytes :: "nat \<Rightarrow> bytes \<Rightarrow> string + (bytes \<times> bytes)" where
  "take_bytes n b = (if length b < n then Inl ''BAD_MESSAGE'' else Inr (take n b, drop n b))"

definition readByte :: "bytes \<Rightarrow> string + (int \<times> bytes)" where
  "readByte b = (case b of [] \<Rightarrow> Inl ''BAD_MESSAGE'' | x # r \<Rightarrow> Inr (uint x, r))"

definition readUint16 :: "bytes \<Rightarrow> string + (int \<times> bytes)" where
  "readUint16 b =
     (case take_bytes 2 b of Inl e \<Rightarrow> Inl e
      | Inr (h, r) \<Rightarrow> Inr (uint (be_word h :: 16 word), r))"

definition readUint32 :: "bytes \<Rightarrow> string + (int \<times> bytes)" where
  "readUint32 b =
     (case take_bytes 4 b of Inl e \<Rightarrow> Inl e
      | Inr (h, r) \<Rightarrow> Inr (uint (be_word h :: 32 word), r))"

definition readInt32 :: "bytes \<Rightarrow> string + (int \<times> bytes)" where
  "readInt32 b =
     (case take_bytes 4 b of Inl e \<Rightarrow> Inl e
      | Inr (h, r) \<Rightarrow> Inr (sint (be_word h :: 32 word), r))"

definition readInt64 :: "bytes \<Rightarrow> string + (int \<times> bytes)" where
  "readInt64 b =
     (case take_bytes 8 b of Inl e \<Rightarrow> Inl e
      | Inr (h, r) \<Rightarrow> Inr (sint (be_word h :: 64 word), r))"

definition readData :: "bytes \<Rightarrow> string + (bytes \<times> bytes)" where
  "readData b =
     (case readUint32 b of Inl e \<Rightarrow> Inl e
      | Inr (n, r) \<Rightarrow> take_bytes (nat n) r)"

definition readString :: "bytes \<Rightarrow> string + (string \<times> bytes)" where
  "readString b =
     (case readData b of Inl e \<Rightarrow> Inl e
      | Inr (d, r) \<Rightarrow> Inr (map char_of_byte d, r))"

definition skipString :: "bytes \<Rightarrow> string + bytes" where
  "skipString b = (case readData b of Inl e \<Rightarrow> Inl e | Inr (d, r) \<Rightarrow> Inr r)"

text \<open>Every successful read moves the cursor forward; the loops over a reader end for
  that reason.\<close>

lemma take_bytes_length: "take_bytes n b = Inr (h, r) \<Longrightarrow> length h = n \<and> length r + n = length b"
  by (auto simp add: take_bytes_def split: if_splits)

lemma readByte_length: "readByte b = Inr (v, r) \<Longrightarrow> Suc (length r) = length b"
  by (auto simp add: readByte_def split: list.splits)

lemma readUint32_length: "readUint32 b = Inr (v, r) \<Longrightarrow> length r + 4 = length b"
  by (auto simp add: readUint32_def split: sum.splits dest: take_bytes_length)

lemma readInt32_length: "readInt32 b = Inr (v, r) \<Longrightarrow> length r + 4 = length b"
  by (auto simp add: readInt32_def split: sum.splits dest: take_bytes_length)

lemma readInt64_length: "readInt64 b = Inr (v, r) \<Longrightarrow> length r + 8 = length b"
  by (auto simp add: readInt64_def split: sum.splits dest: take_bytes_length)

lemma readData_length: "readData b = Inr (d, r) \<Longrightarrow> length r + length d + 4 = length b"
  by (auto simp add: readData_def split: sum.splits dest!: take_bytes_length readUint32_length)

lemma readString_length: "readString b = Inr (s, r) \<Longrightarrow> length r + length s + 4 = length b"
  by (auto simp add: readString_def split: sum.splits dest!: readData_length)

lemma skipString_length: "skipString b = Inr r \<Longrightarrow> length r + 4 \<le> length b"
  by (auto simp add: skipString_def split: sum.splits dest!: readData_length)

text \<open>\<^verbatim>\<open>readStructuredData\<close> peels a length-prefixed inner frame: the nested reader and the
  outer reader advanced past it.\<close>

definition readStructuredData :: "bytes \<Rightarrow> string + (bytes \<times> bytes)" where
  "readStructuredData b = readData b"

text \<open>The packet type of a writer is a number or, for an extension request, its name.\<close>

datatype ptype = PNum int | PStr string

record SftpPacketWriter =
  w_type :: ptype
  w_id :: "int option"
  w_buf :: bytes

definition writeBytes :: "bytes \<Rightarrow> SftpPacketWriter \<Rightarrow> SftpPacketWriter" where
  "writeBytes bs w = w\<lparr>w_buf := w_buf w @ bs\<rparr>"

definition writeByte :: "int \<Rightarrow> SftpPacketWriter \<Rightarrow> SftpPacketWriter" where
  "writeByte v = writeBytes (enc_byte v)"

definition writeInt32 :: "int \<Rightarrow> SftpPacketWriter \<Rightarrow> SftpPacketWriter" where
  "writeInt32 v = writeBytes (enc_int32 v)"

definition writeInt64 :: "int \<Rightarrow> SftpPacketWriter \<Rightarrow> SftpPacketWriter" where
  "writeInt64 v = writeBytes (enc_int64 v)"

definition writeData :: "bytes \<Rightarrow> SftpPacketWriter \<Rightarrow> SftpPacketWriter" where
  "writeData bs = writeBytes (enc_data bs)"

definition writeString :: "string \<Rightarrow> SftpPacketWriter \<Rightarrow> SftpPacketWriter" where
  "writeString s = writeBytes (enc_string s)"

section \<open>Attribute block (\<^verbatim>\<open>SftpAttributes\<close>)\<close>

definition ATTR_SIZE :: int where "ATTR_SIZE = 0x00000001"
definition ATTR_UIDGID :: int where "ATTR_UIDGID = 0x00000002"
definition ATTR_PERMISSIONS :: int where "ATTR_PERMISSIONS = 0x00000004"
definition ATTR_ACMODTIME :: int where "ATTR_ACMODTIME = 0x00000008"
definition ATTR_BASIC :: int where "ATTR_BASIC = 0x0000000F"
definition ATTR_EXTENDED :: int where "ATTR_EXTENDED = 0x80000000"

definition METADATA :: string where "METADATA = ''meta@sftp.ws''"

text \<open>
  A metadata value is a string, a boolean, a number, or anything else; the last kind is
  identified by its JSON text (\<^verbatim>\<open>JSON.stringify\<close> on the way out, \<^verbatim>\<open>JSON.parse\<close> on the
  way in, both kept symbolic), so \<^verbatim>\<open>null\<close> is \<open>JJson ''null''\<close>. A metadata object is the
  list of its keys and values in insertion order.
\<close>

datatype jsval = JStr string | JBool bool | JNum int | JJson string

type_synonym IMetadata = "(string \<times> jsval) list"

text \<open>\<^verbatim>\<open>writeMetadata\<close> fills a buffer of its own, \<open>data\<close>, and returns; nothing reaches the
  writer it was given.\<close>

definition writeMetadata_entry :: "SftpPacketWriter \<Rightarrow> string \<times> jsval \<Rightarrow> SftpPacketWriter" where
  "writeMetadata_entry data kv =
     (case kv of (key, val) \<Rightarrow>
        (let data = writeString key data in
         (case val of
            JStr s \<Rightarrow> (if s = ''null'' then writeByte 0 data
                       else writeString s (writeByte 3 data))
          | JBool b \<Rightarrow> writeByte (if b then 1 else 0) (writeByte 1 data)
          | JNum n \<Rightarrow> writeInt64 n (writeByte 2 data)
          | JJson t \<Rightarrow> writeString t (writeByte 4 data))))"

definition writeMetadata :: "SftpPacketWriter \<Rightarrow> IMetadata \<Rightarrow> SftpPacketWriter" where
  "writeMetadata writer metadata =
     (let data = foldl writeMetadata_entry \<lparr>w_type = PNum 0, w_id = None, w_buf = []\<rparr> metadata
      in writer)"

text \<open>The loop of \<^verbatim>\<open>readMetadata\<close>. Running off the end of the inner frame leaves the
  function without a \<^verbatim>\<open>return\<close>: the result is \<open>undefined\<close>, here \<open>None\<close>.\<close>

function readMetadata_loop :: "bytes \<Rightarrow> IMetadata \<Rightarrow> string + IMetadata option" where
  "readMetadata_loop d metadata =
     (if d = [] then Inr None
      else (case readString d of
              Inl e \<Rightarrow> Inl e
            | Inr (key, d1) \<Rightarrow>
                if length key = 0 then Inr (Some metadata)
                else (case readByte d1 of
                        Inl e \<Rightarrow> Inl e
                      | Inr (t, d2) \<Rightarrow>
                          if t = 0 then
                            (case skipString d2 of Inl e \<Rightarrow> Inl e
                             | Inr d3 \<Rightarrow>
                                readMetadata_loop d3 (AList.update key (JJson ''null'') metadata))
                          else if t = 1 then
                            (case readByte d2 of Inl e \<Rightarrow> Inl e
                             | Inr (v, d3) \<Rightarrow>
                                readMetadata_loop d3 (AList.update key (JBool (v \<noteq> 0)) metadata))
                          else if t = 2 then
                            (case readInt64 d2 of Inl e \<Rightarrow> Inl e
                             | Inr (v, d3) \<Rightarrow>
                                readMetadata_loop d3 (AList.update key (JNum v) metadata))
                          else if t = 3 then
                            (case readString d2 of Inl e \<Rightarrow> Inl e
                             | Inr (v, d3) \<Rightarrow>
                                readMetadata_loop d3 (AList.update key (JStr v) metadata))
                          else if t = 4 then
                            (case readData d2 of Inl e \<Rightarrow> Inl e
                             | Inr (v, d3) \<Rightarrow>
                                readMetadata_loop d3
                                  (AList.update key (JJson (map char_of_byte v)) metadata))
                          else
                            (case skipString d2 of Inl e \<Rightarrow> Inl e
                             | Inr d3 \<Rightarrow> readMetadata_loop d3 metadata))))"
  by pat_completeness auto
termination
  by (relation "measure (\<lambda>(d, m). length d)")
     (auto dest!: readString_length readByte_length readInt64_length readData_length
        skipString_length)

declare readMetadata_loop.simps [simp del]

definition readMetadata :: "bytes \<Rightarrow> string + (IMetadata option \<times> bytes)" where
  "readMetadata reader =
     bnd (readStructuredData reader) (\<lambda>(data, rest).
     bnd (readMetadata_loop data []) (\<lambda>metadata. Inr (metadata, rest)))"

record SftpAttributes =
  flags :: int
  size_attr :: "int option"
  uid :: "int option"
  gid :: "int option"
  mode :: "int option"
  atime :: "int option"
  mtime :: "int option"
  nlink :: "int option"
  metadata :: "IMetadata option"

text \<open>The constructor without a reader.\<close>

definition new_SftpAttributes :: SftpAttributes where
  "new_SftpAttributes = \<lparr>flags = 0, size_attr = None, uid = None, gid = None, mode = None,
     atime = None, mtime = None, nlink = None, metadata = None\<rparr>"

text \<open>The loop over the extended pairs; \<open>n\<close> is the number of iterations left.\<close>

fun read_extended :: "nat \<Rightarrow> bytes \<Rightarrow> IMetadata option \<Rightarrow> string + (IMetadata option \<times> bytes)" where
  "read_extended 0 reader md = Inr (md, reader)"
| "read_extended (Suc n) reader md =
     (case readString reader of
        Inl e \<Rightarrow> Inl e
      | Inr (name, r1) \<Rightarrow>
          if name = METADATA then
            (case readMetadata r1 of Inl e \<Rightarrow> Inl e
             | Inr (md', r2) \<Rightarrow> read_extended n r2 md')
          else
            (case skipString r1 of Inl e \<Rightarrow> Inl e
             | Inr r2 \<Rightarrow> read_extended n r2 md))"

text \<open>The constructor with a reader: the decoded record and the reader after it.\<close>

definition SftpAttributes_read :: "bytes \<Rightarrow> string + (SftpAttributes \<times> bytes)" where
  "SftpAttributes_read reader =
     bnd (readUint32 reader) (\<lambda>(fl, r0).
     bnd (if js_and fl ATTR_SIZE \<noteq> 0
          then bnd (readInt64 r0) (\<lambda>(v, r). Inr (Some v, r))
          else Inr (None, r0)) (\<lambda>(sz, r1).
     bnd (if js_and fl ATTR_UIDGID \<noteq> 0
          then bnd (readInt32 r1) (\<lambda>(u, r). bnd (readInt32 r) (\<lambda>(g, r'). Inr (Some u, Some g, r')))
          else Inr (None, None, r1)) (\<lambda>(u, g, r2).
     bnd (if js_and fl ATTR_PERMISSIONS \<noteq> 0
          then bnd (readUint32 r2) (\<lambda>(v, r). Inr (Some v, r))
          else Inr (None, r2)) (\<lambda>(m, r3).
     bnd (if js_and fl ATTR_ACMODTIME \<noteq> 0
          then bnd (readUint32 r3) (\<lambda>(a, r). bnd (readUint32 r) (\<lambda>(b, r').
                 Inr (Some (1000 * a), Some (1000 * b), r')))
          else Inr (None, None, r3)) (\<lambda>(at, mt, r4).
     if js_and fl ATTR_EXTENDED \<noteq> 0 then
       bnd (readInt32 r4) (\<lambda>(count, r5).
       bnd (read_extended (nat count) r5 None) (\<lambda>(md, r6).
         Inr (\<lparr>flags = js_and fl (js_not ATTR_EXTENDED), size_attr = sz, uid = u, gid = g,
               mode = m, atime = at, mtime = mt, nlink = None, metadata = md\<rparr>, r6)))
     else
       Inr (\<lparr>flags = fl, size_attr = sz, uid = u, gid = g, mode = m, atime = at, mtime = mt,
             nlink = None, metadata = None\<rparr>, r4))))))"

text \<open>\<^verbatim>\<open>write\<close>. Calling \<^verbatim>\<open>getTime\<close> on an undefined time throws a \<^verbatim>\<open>TypeError\<close>.\<close>

definition SftpAttributes_write :: "SftpAttributes \<Rightarrow> SftpPacketWriter \<Rightarrow> string + SftpPacketWriter" where
  "SftpAttributes_write this response =
     (let fl = flags this;
          w0 = writeInt32 fl response;
          w1 = (if js_and fl ATTR_SIZE \<noteq> 0 then writeInt64 (js_num (size_attr this)) w0 else w0);
          w2 = (if js_and fl ATTR_UIDGID \<noteq> 0
                then writeInt32 (js_num (gid this)) (writeInt32 (js_num (uid this)) w1) else w1);
          w3 = (if js_and fl ATTR_PERMISSIONS \<noteq> 0 then writeInt32 (js_num (mode this)) w2 else w2)
      in bnd (if js_and fl ATTR_ACMODTIME \<noteq> 0
              then (case (atime this, mtime this) of
                      (Some a, Some b) \<Rightarrow>
                         Inr (writeInt32 (seconds_of b) (writeInt32 (seconds_of a) w3))
                    | _ \<Rightarrow> Inl ''TypeError'')
              else Inr w3) (\<lambda>w4.
         if js_and fl ATTR_EXTENDED \<noteq> 0 then
           (case metadata this of
              Some md \<Rightarrow> Inr (writeMetadata (writeString METADATA (writeInt32 1 w4)) md)
            | None \<Rightarrow> Inr (writeInt32 0 w4))
         else Inr w4))"

text \<open>
  \<^verbatim>\<open>IStats\<close> is declared in \<^verbatim>\<open>fs-api.ts\<close> (not among the sources); \<^verbatim>\<open>from\<close> reads these
  fields of it. A \<^verbatim>\<open>null\<close> or undefined argument is \<open>None\<close>.
\<close>

record IStats =
  st_size :: "int option"
  st_uid :: "int option"
  st_gid :: "int option"
  st_mode :: "int option"
  st_atime :: "int option"
  st_mtime :: "int option"
  st_nlink :: "int option"
  st_metadata :: "IMetadata option"

definition SftpAttributes_from :: "IStats option \<Rightarrow> SftpAttributes \<Rightarrow> SftpAttributes" where
  "SftpAttributes_from stats this =
     (case stats of
        None \<Rightarrow> this\<lparr>flags := 0\<rparr>
      | Some st \<Rightarrow>
         (let (f1, t1) = (if st_size st \<noteq> None
                          then (js_or 0 ATTR_SIZE,
                                this\<lparr>size_attr := Some (js_or0 (st_size st))\<rparr>)
                          else (0, this));
              (f2, t2) = (if st_uid st \<noteq> None \<or> st_gid st \<noteq> None
                          then (js_or f1 ATTR_UIDGID,
                                t1\<lparr>uid := Some (js_or0 (st_uid st)), gid := Some (js_or0 (st_gid st))\<rparr>)
                          else (f1, t1));
              (f3, t3) = (if st_mode st \<noteq> None
                          then (js_or f2 ATTR_PERMISSIONS,
                                t2\<lparr>mode := Some (js_or0 (st_mode st))\<rparr>)
                          else (f2, t2));
              (f4, t4) = (if st_atime st \<noteq> None \<or> st_mtime st \<noteq> None
                          then (js_or f3 ATTR_ACMODTIME,
                                t3\<lparr>atime := st_atime st, mtime := st_mtime st\<rparr>)
                          else (f3, t3));
              t5 = (if st_nlink st \<noteq> None then t4\<lparr>nlink := st_nlink st\<rparr> else t4);
              t6 = (if st_metadata st \<noteq> None then t5\<lparr>metadata := st_metadata st\<rparr> else t5)
          in t6\<lparr>flags := f4\<rparr>))"

text \<open>
  Encoding and decoding as the round-trip property uses them: \<open>encode_attrs\<close> runs
  \<^verbatim>\<open>write\<close> on an empty writer and returns the bytes written, \<open>decode_attrs\<close> runs the
  constructor on a reader over those bytes.
\<close>

definition encode_attrs :: "SftpAttributes \<Rightarrow> string + bytes" where
  "encode_attrs x =
     bnd (SftpAttributes_write x \<lparr>w_type = PNum 0, w_id = None, w_buf = []\<rparr>) (\<lambda>w. Inr (w_buf w))"

definition decode_attrs :: "bytes \<Rightarrow> string + SftpAttributes" where
  "decode_attrs b = bnd (SftpAttributes_read b) (\<lambda>(x, rest). Inr x)"

text \<open>
  A record is representable when its flags are a 32-bit word, each field is present exactly
  when its flag bit is set, and each present field fits its wire format: a signed 64-bit
  size, signed 32-bit uid and gid, an unsigned 32-bit mode, and times that are whole seconds
  within 32 bits. \<^verbatim>\<open>nlink\<close> has no wire format.
\<close>

definition in_range :: "int \<Rightarrow> int \<Rightarrow> int option \<Rightarrow> bool" where
  "in_range lo hi v = (case v of None \<Rightarrow> False | Some n \<Rightarrow> lo \<le> n \<and> n < hi)"

definition whole_seconds :: "int option \<Rightarrow> bool" where
  "whole_seconds v =
     (case v of None \<Rightarrow> False | Some ms \<Rightarrow> 0 \<le> ms \<and> ms mod 1000 = 0 \<and> ms div 1000 < 2^32)"

definition representable :: "SftpAttributes \<Rightarrow> bool" where
  "representable x \<longleftrightarrow>
     0 \<le> flags x \<and> flags x < 2^32
     \<and> (if js_and (flags x) ATTR_SIZE \<noteq> 0
          then in_range (- (2^63)) (2^63) (size_attr x) else size_attr x = None)
     \<and> (if js_and (flags x) ATTR_UIDGID \<noteq> 0
          then in_range (- (2^31)) (2^31) (uid x) \<and> in_range (- (2^31)) (2^31) (gid x)
          else uid x = None \<and> gid x = None)
     \<and> (if js_and (flags x) ATTR_PERMISSIONS \<noteq> 0
          then in_range 0 (2^32) (mode x) else mode x = None)
     \<and> (if js_and (flags x) ATTR_ACMODTIME \<noteq> 0
          then whole_seconds (atime x) \<and> whole_seconds (mtime x)
          else atime x = None \<and> mtime x = None)
     \<and> nlink x = None"

section \<open>Packet types, status codes and frames\<close>

text \<open>Modelled from the spec: the values of \<^verbatim>\<open>SftpPacketType\<close> and
  \<^verbatim>\<open>SftpStatusCode\<close> (section 6).\<close>

definition PT_INIT :: int where "PT_INIT = 1"
definition PT_VERSION :: int where "PT_VERSION = 2"
definition PT_OPEN :: int where "PT_OPEN = 3"
definition PT_CLOSE :: int where "PT_CLOSE = 4"
definition PT_READ :: int where "PT_READ = 5"
definition PT_WRITE :: int where "PT_WRITE = 6"
definition PT_FSTAT :: int where "PT_FSTAT = 8"
definition PT_FSETSTAT :: int where "PT_FSETSTAT = 10"
definition PT_READDIR :: int where "PT_READDIR = 12"
definition PT_RENAME :: int where "PT_RENAME = 18"
definition PT_STATUS :: int where "PT_STATUS = 101"
definition PT_HANDLE :: int where "PT_HANDLE = 102"
definition PT_DATA :: int where "PT_DATA = 103"
definition PT_NAME :: int where "PT_NAME = 104"
definition PT_ATTRS :: int where "PT_ATTRS = 105"
definition PT_EXTENDED :: int where "PT_EXTENDED = 200"
definition PT_EXTENDED_REPLY :: int where "PT_EXTENDED_REPLY = 201"

definition ST_OK :: int where "ST_OK = 0"
definition ST_EOF :: int where "ST_EOF = 1"
definition ST_NO_SUCH_FILE :: int where "ST_NO_SUCH_FILE = 2"
definition ST_PERMISSION_DENIED :: int where "ST_PERMISSION_DENIED = 3"
definition ST_FAILURE :: int where "ST_FAILURE = 4"
definition ST_BAD_MESSAGE :: int where "ST_BAD_MESSAGE = 5"
definition ST_NO_CONNECTION :: int where "ST_NO_CONNECTION = 6"
definition ST_CONNECTION_LOST :: int where "ST_CONNECTION_LOST = 7"
definition ST_OP_UNSUPPORTED :: int where "ST_OP_UNSUPPORTED = 8"

text \<open>
  Modelled from the spec: \<^verbatim>\<open>finish\<close> of the writer and the constructor of the reader
  (\<^verbatim>\<open>sftp-packet.ts\<close>). The frame is the length of what follows, the type byte, the
  request id unless the type is INIT or VERSION, and the payload. A request whose type is an
  extension name is framed as EXTENDED with the name as its first string. An id that was
  never set is written as 0. The reader takes one whole frame and refuses a length prefix
  that disagrees with it.
\<close>

definition finish :: "SftpPacketWriter \<Rightarrow> bytes" where
  "finish w =
     (let body =
        (case w_type w of
           PNum t \<Rightarrow> enc_byte t @ (if t = PT_INIT \<or> t = PT_VERSION then []
                                    else enc_int32 (js_num (w_id w)))
         | PStr name \<Rightarrow> enc_byte PT_EXTENDED @ enc_int32 (js_num (w_id w)) @ enc_string name)
        @ w_buf w
      in enc_int32 (int (length body)) @ body)"

record SftpPacketReader =
  r_type :: int
  r_id :: "int option"
  r_buf :: bytes

definition new_SftpPacketReader :: "bytes \<Rightarrow> string + SftpPacketReader" where
  "new_SftpPacketReader packet =
     bnd (readUint32 packet) (\<lambda>(len, b0).
       if len \<noteq> int (length b0) then Inl ''BAD_MESSAGE''
       else bnd (readByte b0) (\<lambda>(t, b1).
         if t = PT_INIT \<or> t = PT_VERSION then Inr \<lparr>r_type = t, r_id = None, r_buf = b1\<rparr>
         else bnd (readInt32 b1) (\<lambda>(i, b2). Inr \<lparr>r_type = t, r_id = Some i, r_buf = b2\<rparr>)))"

section \<open>Extension registry (\<^verbatim>\<open>SftpExtensions\<close>)\<close>

definition Ext_POSIX_RENAME :: string where "Ext_POSIX_RENAME = ''posix-rename@openssh.com''"
definition Ext_STATVFS :: string where "Ext_STATVFS = ''statvfs@openssh.com''"
definition Ext_FSTATVFS :: string where "Ext_FSTATVFS = ''fstatvfs@openssh.com''"
definition Ext_HARDLINK :: string where "Ext_HARDLINK = ''hardlink@openssh.com''"
definition Ext_FSYNC :: string where "Ext_FSYNC = ''fsync@openssh.com''"
definition Ext_NEWLINE :: string where "Ext_NEWLINE = ''newline@sftp.ws''"
definition Ext_NEWLINE2 :: string where "Ext_NEWLINE2 = ''newline''"
definition Ext_NEWLINE3 :: string where "Ext_NEWLINE3 = ''newline@vandyke.com''"
definition Ext_CHARSET :: string where "Ext_CHARSET = ''charset@sftp.ws''"
definition Ext_VERSIONS :: string where "Ext_VERSIONS = ''versions''"
definition Ext_VENDOR :: string where "Ext_VENDOR = ''vendor-id''"
definition Ext_COPY_FILE :: string where "Ext_COPY_FILE = ''copy-file''"
definition Ext_COPY_DATA :: string where "Ext_COPY_DATA = ''copy-data''"
definition Ext_CHECK_FILE :: string where "Ext_CHECK_FILE = ''check-file''"
definition Ext_CHECK_FILE_HANDLE :: string where "Ext_CHECK_FILE_HANDLE = ''check-file-handle''"
definition Ext_CHECK_FILE_NAME :: string where "Ext_CHECK_FILE_NAME = ''check-file-name''"
definition Ext_SUPPORTED :: string where "Ext_SUPPORTED = ''supported''"
definition Ext_SUPPORTED2 :: string where "Ext_SUPPORTED2 = ''supported2''"
definition Ext_DEFAULT_FS_ATTRIBS :: string where
  "Ext_DEFAULT_FS_ATTRIBS = ''default-fs-attribs@vandyke.com''"
definition Ext_SYMLINK_ORDER :: string where
  "Ext_SYMLINK_ORDER = ''symlink-order@rjk.greenend.org.uk''"
definition Ext_LINK_ORDER :: string where "Ext_LINK_ORDER = ''link-order@rjk.greenend.org.uk''"

text \<open>
  The static initializer marks \<open>"_" + value\<close> for every static string of the class, and
  \<^verbatim>\<open>isKnown\<close> asks whether \<open>"_" + name\<close> is an own property. The initializer's own slot,
  \<^verbatim>\<open>_constructor\<close>, is such a property too. (Own properties that hold functions would add
  their source text as names; no extension is called that.)
\<close>

definition known_names :: "string list" where
  "known_names = [Ext_POSIX_RENAME, Ext_STATVFS, Ext_FSTATVFS, Ext_HARDLINK, Ext_FSYNC,
     Ext_NEWLINE, Ext_NEWLINE2, Ext_NEWLINE3, Ext_CHARSET, METADATA, Ext_VERSIONS, Ext_VENDOR,
     Ext_COPY_FILE, Ext_COPY_DATA, Ext_CHECK_FILE, Ext_CHECK_FILE_HANDLE, Ext_CHECK_FILE_NAME,
     Ext_SUPPORTED, Ext_SUPPORTED2, Ext_DEFAULT_FS_ATTRIBS, Ext_SYMLINK_ORDER, Ext_LINK_ORDER]"

definition isKnown :: "string \<Rightarrow> bool" where
  "isKnown name \<longleftrightarrow> name \<in> set known_names \<or> name = ''constructor''"

text \<open>\<^verbatim>\<open>String.prototype.indexOf\<close>: the first position at which \<open>t\<close> occurs in \<open>s\<close>, or
  \<open>-1\<close>.\<close>

fun indexOf :: "string \<Rightarrow> string \<Rightarrow> int" where
  "indexOf [] t = (if t = [] then 0 else - 1)"
| "indexOf (c # s) t =
     (if take (length t) (c # s) = t then 0
      else (let r = indexOf s t in if r < 0 then - 1 else r + 1))"

definition contains :: "string \<Rightarrow> string \<Rightarrow> bool" where
  "contains values val \<longleftrightarrow> indexOf ('','' @ values @ '','') ('','' @ val @ '','') \<ge> 0"

text \<open>The values \<^verbatim>\<open>SftpExtensions.read\<close> returns: a string, raw bytes, or one of the
  structured records.\<close>

record Supported =
  supportedAttributeMask :: int
  supportedAttributeBits :: int
  supportedOpenFlags :: int
  supportedAccessMask :: int
  maxReadSize :: int
  supportedOpenBlockVector :: "int option"
  supportedBlockVector :: "int option"
  attribExtensionsNames :: "string list option"
  extensionsNames :: "string list"

datatype ext_value =
    EStr string
  | EBytes bytes
  | EVendor string string string int
  | ESupported Supported
  | EDefaultFs bool bool string "string list"

text \<open>String conversion as \<^verbatim>\<open>+\<close> applies it; \<open>None\<close> is \<open>undefined\<close>.\<close>

definition js_string :: "ext_value option \<Rightarrow> string" where
  "js_string v =
     (case v of
        None \<Rightarrow> ''undefined''
      | Some (EStr s) \<Rightarrow> s
      | Some (EBytes b) \<Rightarrow> map char_of_byte b
      | Some _ \<Rightarrow> ''[object Object]'')"

text \<open>\<open>read_strings n\<close> reads \<open>n\<close> strings in a row.\<close>

fun read_strings :: "nat \<Rightarrow> bytes \<Rightarrow> string + (string list \<times> bytes)" where
  "read_strings 0 b = Inr ([], b)"
| "read_strings (Suc n) b =
     (case readString b of
        Inl e \<Rightarrow> Inl e
      | Inr (name, b1) \<Rightarrow>
          (case read_strings n b1 of
             Inl e \<Rightarrow> Inl e
           | Inr (names, b2) \<Rightarrow> Inr (name # names, b2)))"

text \<open>The loop over the trailing extension names of \<^verbatim>\<open>supported\<close> and
  \<^verbatim>\<open>supported2\<close>: until the counter reaches 0 or the inner frame is used up.\<close>

function read_extension_names :: "int \<Rightarrow> bytes \<Rightarrow> string + string list" where
  "read_extension_names extensionCount d =
     (if extensionCount \<noteq> 0 \<and> d \<noteq> [] then
        (case readString d of
           Inl e \<Rightarrow> Inl e
         | Inr (name, d1) \<Rightarrow>
             (case read_extension_names (extensionCount - 1) d1 of
                Inl e \<Rightarrow> Inl e
              | Inr names \<Rightarrow> Inr (name # names)))
      else Inr [])"
  by pat_completeness auto
termination
  by (relation "measure (\<lambda>(c, d). length d)") (auto dest!: readString_length)

declare read_extension_names.simps [simp del]

definition read_supported :: "bool \<Rightarrow> bytes \<Rightarrow> string + Supported" where
  "read_supported v2 d =
     bnd (readUint32 d) (\<lambda>(mask, d1).
     bnd (readUint32 d1) (\<lambda>(bits, d2).
     bnd (readUint32 d2) (\<lambda>(oflags, d3).
     bnd (readUint32 d3) (\<lambda>(access, d4).
     bnd (readUint32 d4) (\<lambda>(maxread, d5).
     bnd (if v2 then
            bnd (readUint16 d5) (\<lambda>(openBlockVector, e1).
            bnd (readUint16 e1) (\<lambda>(blockVector, e2).
            bnd (readUint32 e2) (\<lambda>(attribExtensionCount, e3).
            bnd (read_strings (nat attribExtensionCount) e3) (\<lambda>(attribNames, e4).
            bnd (readUint32 e4) (\<lambda>(extensionCount, e5).
              Inr (Some openBlockVector, Some blockVector, Some attribNames,
                   extensionCount, e5))))))
          else Inr (None, None, None, - 1, d5)) (\<lambda>(obv, bv, attribNames, extensionCount, d6).
     bnd (read_extension_names extensionCount d6) (\<lambda>names.
       Inr \<lparr>supportedAttributeMask = mask, supportedAttributeBits = bits,
            supportedOpenFlags = oflags, supportedAccessMask = access, maxReadSize = maxread,
            supportedOpenBlockVector = obv, supportedBlockVector = bv,
            attribExtensionsNames = attribNames, extensionsNames = names\<rparr>)))))))"

text \<open>\<^verbatim>\<open>SftpExtensions.read\<close>: the value and the reader after it. The structured cases read
  from a nested reader; the outer reader continues behind the nested frame.\<close>

definition SftpExtensions_read :: "bytes \<Rightarrow> string \<Rightarrow> string + (ext_value \<times> bytes)" where
  "SftpExtensions_read reader name =
     (if name = Ext_VENDOR then
        bnd (readStructuredData reader) (\<lambda>(d, rest).
        bnd (readString d) (\<lambda>(vendorName, d1).
        bnd (readString d1) (\<lambda>(productName, d2).
        bnd (readString d2) (\<lambda>(productVersion, d3).
        bnd (readInt64 d3) (\<lambda>(productBuild, d4).
          Inr (EVendor vendorName productName productVersion productBuild, rest))))))
      else if name = Ext_NEWLINE3 then
        bnd (readStructuredData reader) (\<lambda>(d, rest).
        bnd (readString d) (\<lambda>(v, d1). Inr (EStr v, rest)))
      else if name = Ext_SUPPORTED \<or> name = Ext_SUPPORTED2 then
        bnd (readStructuredData reader) (\<lambda>(d, rest).
        bnd (read_supported (name = Ext_SUPPORTED2) d) (\<lambda>res. Inr (ESupported res, rest)))
      else if name = Ext_DEFAULT_FS_ATTRIBS then
        bnd (readStructuredData reader) (\<lambda>(d, rest).
        bnd (readUint32 d) (\<lambda>(fl, d1).
        bnd (readString d1) (\<lambda>(illegalCharacters, d2).
        bnd (readUint32 d2) (\<lambda>(count, d3).
        bnd (read_strings (nat count) d3) (\<lambda>(reservedNames, d4).
          Inr (EDefaultFs (js_and fl 1 \<noteq> 0) (js_and fl 2 \<noteq> 0) illegalCharacters
                 reservedNames, rest))))))
      else if isKnown name then
        bnd (readString reader) (\<lambda>(v, rest). Inr (EStr v, rest))
      else
        bnd (readData reader) (\<lambda>(v, rest). Inr (EBytes v, rest)))"

section \<open>The client core (\<^verbatim>\<open>SftpClientCore\<close>)\<close>

subsection \<open>Values that cross the interface\<close>

text \<open>
  A handle argument can be any value: a falsy one, an object (with its \<^verbatim>\<open>_handle\<close>, when
  that is a buffer, and its \<^verbatim>\<open>_this\<close>, when that is a session), or any other value. A
  session is identified by its \<^verbatim>\<open>_sessionId\<close>, which the constructor draws from a counter;
  comparing two sessions compares these. An \<^verbatim>\<open>SftpHandle\<close> made by
  \<^verbatim>\<open>new SftpHandle(handle, owner)\<close> is \<open>HObject (Some handle) (Some owner)\<close>.
\<close>

datatype handle_arg = HFalsy | HObject "bytes option" "nat option" | HOther

text \<open>A callback argument is a function, known by a number, or not a function; a buffer
  argument is falsy, a buffer, or something else.\<close>

datatype callback_arg = Fn nat | NotFn

datatype buffer_arg = BFalsy | BBuf bytes | BOther

record SftpCommandInfo =
  i_command :: string
  i_path :: "string option"
  i_oldPath :: "string option"
  i_newPath :: "string option"
  i_handle :: "handle_arg option"
  i_fromHandle :: "handle_arg option"
  i_toHandle :: "handle_arg option"
  i_flags :: "int option"

definition info :: "string \<Rightarrow> SftpCommandInfo" where
  "info c = \<lparr>i_command = c, i_path = None, i_oldPath = None, i_newPath = None, i_handle = None,
     i_fromHandle = None, i_toHandle = None, i_flags = None\<rparr>"

text \<open>The error objects of \<^verbatim>\<open>createError\<close>: code, errno, the native code, the description and
  the fields copied from the command info. The message text, built from the same data, is
  left out.\<close>

record SftpError =
  e_code :: string
  e_errno :: int
  e_nativeCode :: int
  e_description :: string
  e_info :: SftpCommandInfo

record SftpItem =
  filename :: string
  longname :: string
  stats :: SftpAttributes

text \<open>What a callback is called with. \<open>AStats\<close> is an attributes object after
  \<^verbatim>\<open>delete attrs.flags\<close>; \<open>AError\<close> is a plain \<^verbatim>\<open>Error\<close> with its message.\<close>

datatype jsarg =
    ANull
  | AErr SftpError
  | AError string
  | ABuffer bytes
  | ANum int
  | ABool bool
  | AStr string
  | AHandle handle_arg
  | AStats IStats
  | AItems "SftpItem list"

datatype call = Call nat "jsarg list"

text \<open>
  The parser parked with a request. The closures of \<^verbatim>\<open>_init\<close> and \<^verbatim>\<open>read\<close> are
  represented by what they capture: the channel, and
  \<open>retries, h, buffer, offset, length, position\<close>.
\<close>

datatype parser =
    ParseInit nat
  | ParseStatus
  | ParseHandle
  | ParseAttribs
  | ParseItems
  | ParseHash
  | ParseData int bytes "bytes option" int int int

record SftpRequest =
  rq_callback :: nat
  rq_responseParser :: parser
  rq_info :: SftpCommandInfo

record SftpResponse = SftpPacketReader +
  r_info :: SftpCommandInfo

subsection \<open>State\<close>

text \<open>
  The fields of the class, followed by what the model observes of its surroundings: the
  packets handed to \<^verbatim>\<open>send\<close> and the \<^verbatim>\<open>close\<close> calls of each channel (a channel is a
  number), the callbacks called so far, the callbacks handed to \<^verbatim>\<open>process.nextTick\<close>, and
  the errors the message handler of \<^verbatim>\<open>_bind\<close> emits. Callbacks are opaque: calling one is
  recorded, what it does is not part of the model. \<^verbatim>\<open>_requests\<close> is a JavaScript array
  used as a table: a list of keys and entries, at most one entry per key, where the key
  \<open>None\<close> is the property \<^verbatim>\<open>null\<close>. Logging is left out.
\<close>

record SftpClientCore =
  c_sessionId :: nat
  c_host :: "nat option"
  c_id :: "int option"
  c_requests :: "(int option \<times> SftpRequest) list"
  c_ready :: bool
  c_extensions :: "string \<rightharpoonup> ext_value"
  c_features :: "string \<rightharpoonup> string"
  c_maxReadBlockLength :: int
  c_maxWriteBlockLength :: int
  c_bytesReceived :: int
  c_bytesSent :: int
  sent :: "(nat \<times> bytes) list"
  closed :: "(nat \<times> int option) list"
  calls :: "call list"
  ticks :: "call list"
  emitted :: "string list"

definition new_SftpClientCore :: "nat \<Rightarrow> SftpClientCore" where
  "new_SftpClientCore sessionId =
     \<lparr>c_sessionId = sessionId, c_host = None, c_id = None, c_requests = [], c_ready = False,
      c_extensions = Map.empty, c_features = Map.empty,
      c_maxReadBlockLength = 256 * 1024, c_maxWriteBlockLength = 32 * 1024,
      c_bytesReceived = 0, c_bytesSent = 0,
      sent = [], closed = [], calls = [], ticks = [], emitted = []\<rparr>"

definition Feature_HARDLINK :: string where "Feature_HARDLINK = ''LINK''"
definition Feature_POSIX_RENAME :: string where "Feature_POSIX_RENAME = ''POSIX_RENAME''"
definition Feature_COPY_DATA :: string where "Feature_COPY_DATA = ''COPY_DATA''"
definition Feature_CHECK_FILE_HANDLE :: string where
  "Feature_CHECK_FILE_HANDLE = ''CHECK_FILE_HANDLE''"

definition invoke :: "nat \<Rightarrow> jsarg list \<Rightarrow> SftpClientCore \<Rightarrow> SftpClientCore" where
  "invoke callback args s = s\<lparr>calls := calls s @ [Call callback args]\<rparr>"

definition nextTick :: "nat \<Rightarrow> jsarg list \<Rightarrow> SftpClientCore \<Rightarrow> SftpClientCore" where
  "nextTick callback args s = s\<lparr>ticks := ticks s @ [Call callback args]\<rparr>"

subsection \<open>Request construction and submission\<close>

text \<open>A method that can throw returns the thrown message (or the value) together with the
  state at that moment.\<close>

definition getRequest :: "ptype \<Rightarrow> SftpClientCore \<Rightarrow> (string + SftpPacketWriter) \<times> SftpClientCore" where
  "getRequest type s =
     (let request = \<lparr>w_type = type, w_id = c_id s, w_buf = []\<rparr> in
      if type = PNum PT_INIT then
        (if c_id s \<noteq> None then (Inl ''Already initialized'', s)
         else (Inr request, s\<lparr>c_id := Some 1\<rparr>))
      else (Inr request, s\<lparr>c_id := Some (js_and (js_num (c_id s) + 1) 0xFFFFFFFF)\<rparr>))"

definition createError :: "int \<Rightarrow> string \<Rightarrow> SftpCommandInfo \<Rightarrow> SftpError" where
  "createError nativeCode message cinfo =
     (let (code, errno) =
        (if nativeCode = ST_EOF then (''EOF'', 1)
         else if nativeCode = ST_NO_SUCH_FILE then (''ENOENT'', 34)
         else if nativeCode = ST_PERMISSION_DENIED then (''EACCES'', 3)
         else if nativeCode = ST_OK \<or> nativeCode = ST_FAILURE \<or> nativeCode = ST_BAD_MESSAGE
           then (''EFAILURE'', - 2)
         else if nativeCode = ST_NO_CONNECTION then (''ENOTCONN'', 31)
         else if nativeCode = ST_CONNECTION_LOST then (''ESHUTDOWN'', 46)
         else if nativeCode = ST_OP_UNSUPPORTED then (''ENOSYS'', 35)
         else if nativeCode = ST_BAD_MESSAGE then (''ESHUTDOWN'', 46)
         else (''UNKNOWN'', - 1))
      in \<lparr>e_code = code, e_errno = errno, e_nativeCode = nativeCode, e_description = message,
           e_info = cinfo\<rparr>)"

definition execute ::
  "SftpPacketWriter \<Rightarrow> nat \<Rightarrow> parser \<Rightarrow> SftpCommandInfo \<Rightarrow> SftpClientCore
     \<Rightarrow> string option \<times> SftpClientCore" where
  "execute request callback responseParser cinfo s =
     (case c_host s of
        None \<Rightarrow>
          (None, nextTick callback [AErr (createError ST_NO_CONNECTION ''Not connected'' cinfo)] s)
      | Some host \<Rightarrow>
          if map_of (c_requests s) (w_id request) \<noteq> None then (Some ''Duplicate request'', s)
          else
            (let packet = finish request in
             (None, s\<lparr>sent := sent s @ [(host, packet)],
                      c_bytesSent := c_bytesSent s + int (length packet),
                      c_requests := AList.update (w_id request)
                         \<lparr>rq_callback = callback, rq_responseParser = responseParser,
                          rq_info = cinfo\<rparr> (c_requests s)\<rparr>)))"

definition truthy_type :: "ptype \<Rightarrow> bool" where
  "truthy_type t \<longleftrightarrow> (case t of PNum n \<Rightarrow> n \<noteq> 0 | PStr x \<Rightarrow> x \<noteq> [])"

text \<open>The first argument of \<^verbatim>\<open>command\<close>: a packet type, a feature name, or
  \<open>undefined\<close>. Whatever is not a number is looked up in \<^verbatim>\<open>_features\<close>, \<open>undefined\<close>
  under the key of that name; a falsy result is unsupported.\<close>

datatype command_arg = CType int | CFeature string | CUndefined

definition command ::
  "command_arg \<Rightarrow> string list \<Rightarrow> nat \<Rightarrow> parser \<Rightarrow> SftpCommandInfo \<Rightarrow> SftpClientCore
     \<Rightarrow> string option \<times> SftpClientCore" where
  "command c args callback responseParser cinfo s =
     (let c' = (case c of
                  CType n \<Rightarrow> Some (PNum n)
                | CFeature k \<Rightarrow> map_option PStr (c_features s k)
                | CUndefined \<Rightarrow> map_option PStr (c_features s ''undefined''))
      in (case c' of
            None \<Rightarrow>
              (None, nextTick callback
                       [AErr (createError ST_OP_UNSUPPORTED ''Operation not supported'' cinfo)] s)
          | Some t \<Rightarrow>
              if \<not> truthy_type t then
                (None, nextTick callback
                         [AErr (createError ST_OP_UNSUPPORTED ''Operation not supported'' cinfo)] s)
              else
                (case getRequest t s of
                   (Inl e, s1) \<Rightarrow> (Some e, s1)
                 | (Inr request, s1) \<Rightarrow>
                     execute (foldl (\<lambda>w a. writeString a w) request args) callback
                       responseParser cinfo s1)))"

subsection \<open>Argument checks\<close>

definition checkCallback :: "callback_arg \<Rightarrow> string + nat" where
  "checkCallback callback =
     (case callback of Fn f \<Rightarrow> Inr f | NotFn \<Rightarrow> Inl ''Callback must be a function'')"

definition toHandle :: "handle_arg \<Rightarrow> SftpClientCore \<Rightarrow> string + bytes" where
  "toHandle handle s =
     (case handle of
        HFalsy \<Rightarrow> Inl ''Missing handle''
      | HObject hb owner \<Rightarrow>
          (case hb of
             Some b \<Rightarrow> if owner = Some (c_sessionId s) then Inr b else Inl ''Invalid handle''
           | None \<Rightarrow> Inl ''Invalid handle'')
      | HOther \<Rightarrow> Inl ''Invalid handle'')"

definition checkBuffer :: "buffer_arg \<Rightarrow> int \<Rightarrow> int \<Rightarrow> string + bytes" where
  "checkBuffer buffer offset len =
     (case buffer of
        BBuf b \<Rightarrow>
          if offset < 0 then Inl ''Invalid offset''
          else if len < 0 then Inl ''Invalid length''
          else if offset + len > int (length b) then Inl ''Offset or length is out of bands''
          else Inr b
      | _ \<Rightarrow> Inl ''Invalid buffer'')"

text \<open>
  A position is a JavaScript number, here one with an integral value. The bound of
  \<^verbatim>\<open>checkPosition\<close> is written \<^verbatim>\<open>0x7FFFFFFFFFFFFFFF\<close>; a number is a double, and the double
  nearest to that literal is \<open>2^63\<close>, so the comparison is with \<open>2^63\<close> and the position
  \<open>2^63\<close> itself passes.
\<close>

definition checkPosition :: "int \<Rightarrow> string option" where
  "checkPosition position =
     (if position < 0 \<or> position > 2^63 then Some ''Invalid position'' else None)"

text \<open>\<^verbatim>\<open>Path.check\<close> belongs to \<^verbatim>\<open>fs-misc.ts\<close>, which is not among the sources; it is the
  parameter \<open>pc\<close>.\<close>

definition checkPath :: "(string \<Rightarrow> string \<Rightarrow> string + string) \<Rightarrow> string \<Rightarrow> string \<Rightarrow> string + string" where
  "checkPath pc path name =
     bnd (pc path name) (\<lambda>p.
       Inr (case p of
              c # rest \<Rightarrow>
                if c = CHR ''~'' then
                  (case rest of
                     [] \<Rightarrow> ''.''
                   | d # rest' \<Rightarrow> if d = CHR ''/'' then ''.'' @ rest else p)
                else p
            | [] \<Rightarrow> p))"

definition writeStats :: "SftpPacketWriter \<Rightarrow> IStats option \<Rightarrow> string + SftpPacketWriter" where
  "writeStats packet attrs =
     SftpAttributes_write (SftpAttributes_from attrs new_SftpAttributes) packet"

text \<open>\<^verbatim>\<open>Buffer.slice(start, end)\<close> for indices that are not negative.\<close>

definition slice :: "bytes \<Rightarrow> int \<Rightarrow> int \<Rightarrow> bytes" where
  "slice b start fin = take (nat (fin - start)) (drop (nat start) b)"

text \<open>\<^verbatim>\<open>data.copy(buffer, offset, 0, length)\<close>: the buffer with the first \<open>len\<close> bytes of
  \<open>data\<close> written at \<open>offset\<close>, as far as they fit.\<close>

definition copy_into :: "bytes \<Rightarrow> bytes \<Rightarrow> int \<Rightarrow> int \<Rightarrow> bytes" where
  "copy_into data buffer offset len =
     take (length buffer)
       (take (nat offset) buffer @ take (nat len) data
          @ drop (nat offset + min (nat len) (length data)) buffer)"

subsection \<open>Response parsers\<close>

definition readStatus :: "SftpResponse \<Rightarrow> string + (SftpError option \<times> SftpResponse)" where
  "readStatus response =
     bnd (readInt32 (r_buf response)) (\<lambda>(nativeCode, b1).
     bnd (readString b1) (\<lambda>(message, b2).
       Inr (if nativeCode = ST_OK then None
            else Some (createError nativeCode message (r_info response)),
            response\<lparr>r_buf := b2\<rparr>)))"

definition checkResponse ::
  "SftpResponse \<Rightarrow> int \<Rightarrow> nat \<Rightarrow> SftpClientCore
     \<Rightarrow> (string + (bool \<times> SftpResponse)) \<times> SftpClientCore" where
  "checkResponse response expectedType callback s =
     (case (if r_type response = PT_STATUS then readStatus response else Inr (None, response)) of
        Inl e \<Rightarrow> (Inl e, s)
      | Inr (Some error, response1) \<Rightarrow> (Inr (False, response1), invoke callback [AErr error] s)
      | Inr (None, response1) \<Rightarrow>
          if r_type response \<noteq> expectedType then (Inl ''Unexpected packet received'', s)
          else (Inr (True, response1), s))"

definition parseStatus :: "SftpResponse \<Rightarrow> nat \<Rightarrow> SftpClientCore \<Rightarrow> string option \<times> SftpClientCore" where
  "parseStatus response callback s =
     (case checkResponse response PT_STATUS callback s of
        (Inl e, s1) \<Rightarrow> (Some e, s1)
      | (Inr (False, response1), s1) \<Rightarrow> (None, s1)
      | (Inr (True, response1), s1) \<Rightarrow> (None, invoke callback [ANull] s1))"

definition stats_of :: "SftpAttributes \<Rightarrow> IStats" where
  "stats_of a = \<lparr>st_size = size_attr a, st_uid = uid a, st_gid = gid a, st_mode = mode a,
     st_atime = atime a, st_mtime = mtime a, st_nlink = nlink a, st_metadata = metadata a\<rparr>"

definition parseAttribs :: "SftpResponse \<Rightarrow> nat \<Rightarrow> SftpClientCore \<Rightarrow> string option \<times> SftpClientCore" where
  "parseAttribs response callback s =
     (case checkResponse response PT_ATTRS callback s of
        (Inl e, s1) \<Rightarrow> (Some e, s1)
      | (Inr (False, response1), s1) \<Rightarrow> (None, s1)
      | (Inr (True, response1), s1) \<Rightarrow>
          (case SftpAttributes_read (r_buf response1) of
             Inl e \<Rightarrow> (Some e, s1)
           | Inr (attrs, rest) \<Rightarrow> (None, invoke callback [ANull, AStats (stats_of attrs)] s1)))"

definition parseHandle :: "SftpResponse \<Rightarrow> nat \<Rightarrow> SftpClientCore \<Rightarrow> string option \<times> SftpClientCore" where
  "parseHandle response callback s =
     (case checkResponse response PT_HANDLE callback s of
        (Inl e, s1) \<Rightarrow> (Some e, s1)
      | (Inr (False, response1), s1) \<Rightarrow> (None, s1)
      | (Inr (True, response1), s1) \<Rightarrow>
          (case readData (r_buf response1) of
             Inl e \<Rightarrow> (Some e, s1)
           | Inr (handle, rest) \<Rightarrow>
               (None, invoke callback
                        [ANull, AHandle (HObject (Some handle) (Some (c_sessionId s1)))] s1)))"

definition parseHash :: "SftpResponse \<Rightarrow> nat \<Rightarrow> SftpClientCore \<Rightarrow> string option \<times> SftpClientCore" where
  "parseHash response callback s =
     (case checkResponse response PT_EXTENDED_REPLY callback s of
        (Inl e, s1) \<Rightarrow> (Some e, s1)
      | (Inr (False, response1), s1) \<Rightarrow> (None, s1)
      | (Inr (True, response1), s1) \<Rightarrow>
          (case readString (r_buf response1) of
             Inl e \<Rightarrow> (Some e, s1)
           | Inr (alg, b1) \<Rightarrow>
               (case readData b1 of
                  Inl e \<Rightarrow> (Some e, s1)
                | Inr (hashes, rest) \<Rightarrow>
                    (None, invoke callback [ANull, ABuffer hashes, AStr alg] s1))))"

definition readItem :: "bytes \<Rightarrow> string + (SftpItem \<times> bytes)" where
  "readItem b =
     bnd (readString b) (\<lambda>(fname, b1).
     bnd (readString b1) (\<lambda>(lname, b2).
     bnd (SftpAttributes_read b2) (\<lambda>(attrs, b3).
       Inr (\<lparr>filename = fname, longname = lname, stats = attrs\<rparr>, b3))))"

fun readItems :: "nat \<Rightarrow> bytes \<Rightarrow> string + (SftpItem list \<times> bytes)" where
  "readItems 0 b = Inr ([], b)"
| "readItems (Suc n) b =
     (case readItem b of
        Inl e \<Rightarrow> Inl e
      | Inr (item, b1) \<Rightarrow>
          (case readItems n b1 of
             Inl e \<Rightarrow> Inl e
           | Inr (items, b2) \<Rightarrow> Inr (item # items, b2)))"

definition parseItems :: "SftpResponse \<Rightarrow> nat \<Rightarrow> SftpClientCore \<Rightarrow> string option \<times> SftpClientCore" where
  "parseItems response callback s =
     (case (if r_type response = PT_STATUS then readStatus response else Inr (None, response)) of
        Inl e \<Rightarrow> (Some e, s)
      | Inr (Some error, response1) \<Rightarrow>
          if e_nativeCode error = ST_EOF then (None, invoke callback [ANull, ABool False] s)
          else (None, invoke callback [AErr error, ANull] s)
      | Inr (None, response1) \<Rightarrow>
          if r_type response \<noteq> PT_NAME then (Some ''Unexpected packet received'', s)
          else
            (case readInt32 (r_buf response1) of
               Inl e \<Rightarrow> (Some e, s)
             | Inr (count, b1) \<Rightarrow>
                 (case readItems (nat count) b1 of
                    Inl e \<Rightarrow> (Some e, s)
                  | Inr (items, rest) \<Rightarrow> (None, invoke callback [ANull, AItems items] s))))"

definition parseData ::
  "SftpResponse \<Rightarrow> nat \<Rightarrow> int \<Rightarrow> bytes \<Rightarrow> bytes option \<Rightarrow> int \<Rightarrow> int \<Rightarrow> int \<Rightarrow> SftpClientCore
     \<Rightarrow> string option \<times> SftpClientCore" where
  "parseData response callback retries h buffer offset len position s =
     (case (if r_type response = PT_STATUS then readStatus response else Inr (None, response)) of
        Inl e \<Rightarrow> (Some e, s)
      | Inr (Some error, response1) \<Rightarrow>
          if e_nativeCode error = ST_EOF then
            (None, invoke callback
                     [ANull, ABuffer (case buffer of Some b \<Rightarrow> slice b offset 0 | None \<Rightarrow> []),
                      ANum 0] s)
          else (None, invoke callback [AErr error, ANull, ANum 0] s)
      | Inr (None, response1) \<Rightarrow>
          (case readData (r_buf response1) of
             Inl e \<Rightarrow> (Some e, s)
           | Inr (data, rest) \<Rightarrow>
               if int (length data) > len then (Some ''Received too much data'', s)
               else
                 (let len = int (length data) in
                  if len = 0 then
                    (if retries > 4 then
                       (None, invoke callback
                                [AErr ((createError ST_FAILURE ''Unable to read data''
                                          (r_info response))\<lparr>e_code := ''EIO'', e_errno := 55\<rparr>),
                                 ANull, ANum 0] s)
                     else
                       (case getRequest (PNum PT_READ) s of
                          (Inl e, s1) \<Rightarrow> (Some e, s1)
                        | (Inr request, s1) \<Rightarrow>
                            execute (writeInt32 len (writeInt64 position (writeData h request)))
                              callback (ParseData (retries + 1) h buffer offset len position)
                              (r_info response) s1))
                  else
                    (None, invoke callback
                             [ANull,
                              ABuffer (case buffer of None \<Rightarrow> data
                                       | Some b \<Rightarrow> copy_into data b offset len),
                              ANum len] s))))"

subsection \<open>Handshake\<close>

lemma SftpExtensions_read_length:
  "SftpExtensions_read b n = Inr (v, r) \<Longrightarrow> length r + 4 \<le> length b"
  by (auto simp add: SftpExtensions_read_def bnd_def readStructuredData_def
      split: if_splits sum.splits prod.splits dest!: readData_length readString_length)

text \<open>
  The loop over the extension pairs of the VERSION packet. For a name that ends in
  \<^verbatim>\<open>@openssh.com\<close> the loop body computes \<open>val\<close>, the earlier value joined with the new one
  by a comma; the assignment that follows stores \<open>value\<close>. A read that throws leaves the
  pairs stored so far.
\<close>

function read_extensions ::
  "bytes \<Rightarrow> (string \<rightharpoonup> ext_value) \<Rightarrow> string option \<times> (string \<rightharpoonup> ext_value)" where
  "read_extensions b exts =
     (if length b \<ge> 4 then
        (case readString b of
           Inl e \<Rightarrow> (Some e, exts)
         | Inr (extensionName, b1) \<Rightarrow>
             (case SftpExtensions_read b1 extensionName of
                Inl e \<Rightarrow> (Some e, exts)
              | Inr (val0, b2) \<Rightarrow>
                  (let val =
                     (if indexOf extensionName ''@openssh.com'' = int (length extensionName) - 12
                      then Some (case exts extensionName of
                                   None \<Rightarrow> js_string (Some val0)
                                 | Some v \<Rightarrow> js_string (Some v) @ '','' @ js_string (Some val0))
                      else None)
                   in read_extensions b2 (exts(extensionName \<mapsto> val0)))))
      else (None, exts))"
  by pat_completeness auto
termination
  by (relation "measure (\<lambda>(b, exts). length b)")
     (auto dest!: readString_length SftpExtensions_read_length)

declare read_extensions.simps [simp del]

definition parseInit :: "nat \<Rightarrow> SftpResponse \<Rightarrow> nat \<Rightarrow> SftpClientCore \<Rightarrow> string option \<times> SftpClientCore" where
  "parseInit host response callback s =
     (if r_type response \<noteq> PT_VERSION then
        (None, invoke callback [AError ''Protocol violation'']
                 (s\<lparr>closed := closed s @ [(host, Some 3002)]\<rparr>))
      else
        (case readInt32 (r_buf response) of
           Inl e \<Rightarrow> (Some e, s)
         | Inr (version, b1) \<Rightarrow>
             if version \<noteq> 3 then
               (None, invoke callback
                        [AErr (createError ST_BAD_MESSAGE ''Unexpected protocol version''
                                 (info ''init''))]
                        (s\<lparr>closed := closed s @ [(host, Some 3002)]\<rparr>))
             else
               (case read_extensions b1 (c_extensions s) of
                  (Some e, exts) \<Rightarrow> (Some e, s\<lparr>c_extensions := exts\<rparr>)
                | (None, exts) \<Rightarrow>
                    (let s1 = s\<lparr>c_extensions := exts\<rparr>;
                         s2 = (if contains (js_string (exts Ext_HARDLINK)) ''1''
                               then s1\<lparr>c_features := (c_features s1)(Feature_HARDLINK \<mapsto> Ext_HARDLINK)\<rparr>
                               else s1);
                         s3 = (if contains (js_string (exts Ext_POSIX_RENAME)) ''1''
                               then s2\<lparr>c_features :=
                                        (c_features s2)(Feature_POSIX_RENAME \<mapsto> Ext_POSIX_RENAME)\<rparr>
                               else s2);
                         s4 = s3\<lparr>c_features :=
                                   (c_features s3)(Feature_CHECK_FILE_HANDLE \<mapsto> Ext_CHECK_FILE_HANDLE,
                                                   Feature_COPY_DATA \<mapsto> Ext_COPY_DATA)\<rparr>
                     in (None, invoke callback [ANull] (s4\<lparr>c_ready := True\<rparr>))))))"

text \<open>\<^verbatim>\<open>_init\<close>.\<close>

definition core_init :: "nat \<Rightarrow> nat \<Rightarrow> SftpClientCore \<Rightarrow> string option \<times> SftpClientCore" where
  "core_init host callback s =
     (if c_host s \<noteq> None then (Some ''Already bound'', s)
      else
        (let s1 = s\<lparr>c_host := Some host, c_extensions := Map.empty\<rparr> in
         (case getRequest (PNum PT_INIT) s1 of
            (Inl e, s2) \<Rightarrow> (Some e, s2)
          | (Inr request, s2) \<Rightarrow>
              execute (writeInt32 3 request) callback (ParseInit host) (info ''init'') s2)))"

subsection \<open>Dispatch and teardown\<close>

definition run_parser ::
  "parser \<Rightarrow> SftpResponse \<Rightarrow> nat \<Rightarrow> SftpClientCore \<Rightarrow> string option \<times> SftpClientCore" where
  "run_parser p response callback s =
     (case p of
        ParseInit host \<Rightarrow> parseInit host response callback s
      | ParseStatus \<Rightarrow> parseStatus response callback s
      | ParseHandle \<Rightarrow> parseHandle response callback s
      | ParseAttribs \<Rightarrow> parseAttribs response callback s
      | ParseItems \<Rightarrow> parseItems response callback s
      | ParseHash \<Rightarrow> parseHash response callback s
      | ParseData retries h buffer offset len position \<Rightarrow>
          parseData response callback retries h buffer offset len position s)"

text \<open>\<^verbatim>\<open>_process\<close>.\<close>

definition core_process :: "bytes \<Rightarrow> SftpClientCore \<Rightarrow> string option \<times> SftpClientCore" where
  "core_process packet s =
     (let s1 = s\<lparr>c_bytesReceived := c_bytesReceived s + int (length packet)\<rparr> in
      (case new_SftpPacketReader packet of
         Inl e \<Rightarrow> (Some e, s1)
       | Inr reader \<Rightarrow>
           (case map_of (c_requests s1) (r_id reader) of
              None \<Rightarrow> (Some ''Unknown response ID'', s1)
            | Some request \<Rightarrow>
                run_parser (rq_responseParser request)
                  \<lparr>r_type = r_type reader, r_id = r_id reader, r_buf = r_buf reader,
                   r_info = rq_info request\<rparr>
                  (rq_callback request)
                  (s1\<lparr>c_requests := AList.delete (r_id reader) (c_requests s1)\<rparr>))))"

text \<open>The message handler that \<^verbatim>\<open>_bind\<close> installs: an exception of \<^verbatim>\<open>_process\<close> becomes
  an \<^verbatim>\<open>error\<close> event. \<open>deliver\<close> hands it a sequence of inbound packets.\<close>

definition on_message :: "bytes \<Rightarrow> SftpClientCore \<Rightarrow> SftpClientCore" where
  "on_message packet s =
     (case core_process packet s of
        (Some err, s1) \<Rightarrow> s1\<lparr>emitted := emitted s1 @ [err]\<rparr>
      | (None, s1) \<Rightarrow> s1)"

fun deliver :: "bytes list \<Rightarrow> SftpClientCore \<Rightarrow> SftpClientCore" where
  "deliver [] s = s"
| "deliver (packet # packets) s = deliver packets (on_message packet s)"

text \<open>
  \<^verbatim>\<open>Array.prototype.forEach\<close> visits the elements stored under array indices, the integers
  from 0 to \<open>2^32 - 2\<close>, in ascending order; a property under any other key (\<^verbatim>\<open>null\<close>, a
  negative number) is not an element.
\<close>

definition is_index :: "int option \<Rightarrow> bool" where
  "is_index k \<longleftrightarrow> (case k of None \<Rightarrow> False | Some i \<Rightarrow> 0 \<le> i \<and> i < 2^32 - 1)"

definition forEach_elements :: "(int option \<times> 'a) list \<Rightarrow> 'a list" where
  "forEach_elements arr = map snd (sort_key (\<lambda>kv. js_num (fst kv)) (filter (\<lambda>kv. is_index (fst kv)) arr))"

definition failRequests :: "int \<Rightarrow> string \<Rightarrow> SftpClientCore \<Rightarrow> SftpClientCore" where
  "failRequests code message s =
     (let requests = c_requests s;
          s1 = s\<lparr>c_requests := []\<rparr>
      in foldl (\<lambda>t request.
                  invoke (rq_callback request)
                    [AErr (createError code message (rq_info request))] t)
           s1 (forEach_elements requests))"

text \<open>\<^verbatim>\<open>end\<close>.\<close>

definition core_end :: "SftpClientCore \<Rightarrow> SftpClientCore" where
  "core_end s =
     (let s1 = (case c_host s of
                  Some host \<Rightarrow> s\<lparr>c_host := None, closed := closed s @ [(host, None)]\<rparr>
                | None \<Rightarrow> s)
      in failRequests ST_CONNECTION_LOST ''Connection closed'' s1)"

subsection \<open>Operations\<close>

text \<open>The public methods \<^verbatim>\<open>open\<close>, \<^verbatim>\<open>close\<close>, \<^verbatim>\<open>read\<close>, \<^verbatim>\<open>write\<close>, \<^verbatim>\<open>fstat\<close>,
  \<^verbatim>\<open>fsetstat\<close>, \<^verbatim>\<open>readdir\<close>, \<^verbatim>\<open>rename\<close>, \<^verbatim>\<open>fcopy\<close> and \<^verbatim>\<open>fhash\<close>, each under its
  name with the prefix \<open>sftp_\<close>.\<close>

definition sftp_open ::
  "(string \<Rightarrow> string \<Rightarrow> string + string) \<Rightarrow> string \<Rightarrow> flags_arg \<Rightarrow> IStats option \<Rightarrow> callback_arg
     \<Rightarrow> SftpClientCore \<Rightarrow> string option \<times> SftpClientCore" where
  "sftp_open pc path0 flgs attrs callback s =
     (case checkCallback callback of Inl e \<Rightarrow> (Some e, s) | Inr cb \<Rightarrow>
      (case checkPath pc path0 ''path'' of Inl e \<Rightarrow> (Some e, s) | Inr path \<Rightarrow>
       (case getRequest (PNum PT_OPEN) s of (Inl e, s1) \<Rightarrow> (Some e, s1) | (Inr request, s1) \<Rightarrow>
        (case toNumber flgs of Inl e \<Rightarrow> (Some e, s1) | Inr n \<Rightarrow>
         (case writeStats (writeInt32 (uint n) (writeString path request)) attrs of
            Inl e \<Rightarrow> (Some e, s1)
          | Inr request1 \<Rightarrow>
              execute request1 cb ParseHandle ((info ''open'')\<lparr>i_path := Some path\<rparr>) s1)))))"

definition sftp_close :: "handle_arg \<Rightarrow> callback_arg \<Rightarrow> SftpClientCore \<Rightarrow> string option \<times> SftpClientCore" where
  "sftp_close handle callback s =
     (case checkCallback callback of Inl e \<Rightarrow> (Some e, s) | Inr cb \<Rightarrow>
      (case toHandle handle s of Inl e \<Rightarrow> (Some e, s) | Inr h \<Rightarrow>
       (case getRequest (PNum PT_CLOSE) s of (Inl e, s1) \<Rightarrow> (Some e, s1) | (Inr request, s1) \<Rightarrow>
          execute (writeData h request) cb ParseStatus
            ((info ''close'')\<lparr>i_handle := Some handle\<rparr>) s1)))"

definition sftp_read ::
  "handle_arg \<Rightarrow> buffer_arg \<Rightarrow> int \<Rightarrow> int \<Rightarrow> int \<Rightarrow> callback_arg \<Rightarrow> SftpClientCore
     \<Rightarrow> string option \<times> SftpClientCore" where
  "sftp_read handle buffer offset len0 position callback s =
     (case checkCallback callback of Inl e \<Rightarrow> (Some e, s) | Inr cb \<Rightarrow>
      (case toHandle handle s of Inl e \<Rightarrow> (Some e, s) | Inr h \<Rightarrow>
       (case (if buffer \<noteq> BFalsy then bnd (checkBuffer buffer offset len0) (\<lambda>b. Inr (Some b))
              else Inr None) of
          Inl e \<Rightarrow> (Some e, s)
        | Inr buf \<Rightarrow>
         (case checkPosition position of Some e \<Rightarrow> (Some e, s) | None \<Rightarrow>
          (let len = (if len0 > c_maxReadBlockLength s then c_maxReadBlockLength s else len0) in
           (case getRequest (PNum PT_READ) s of (Inl e, s1) \<Rightarrow> (Some e, s1) | (Inr request, s1) \<Rightarrow>
              execute (writeInt32 len (writeInt64 position (writeData h request))) cb
                (ParseData 0 h buf offset len position)
                ((info ''read'')\<lparr>i_handle := Some handle\<rparr>) s1))))))"

definition sftp_write ::
  "handle_arg \<Rightarrow> buffer_arg \<Rightarrow> int \<Rightarrow> int \<Rightarrow> int \<Rightarrow> callback_arg \<Rightarrow> SftpClientCore
     \<Rightarrow> string option \<times> SftpClientCore" where
  "sftp_write handle buffer offset len position callback s =
     (case checkCallback callback of Inl e \<Rightarrow> (Some e, s) | Inr cb \<Rightarrow>
      (case toHandle handle s of Inl e \<Rightarrow> (Some e, s) | Inr h \<Rightarrow>
       (case checkBuffer buffer offset len of Inl e \<Rightarrow> (Some e, s) | Inr b \<Rightarrow>
        (case checkPosition position of Some e \<Rightarrow> (Some e, s) | None \<Rightarrow>
         if len > c_maxWriteBlockLength s then
           (Some ''Length exceeds maximum allowed data block length'', s)
         else
           (case getRequest (PNum PT_WRITE) s of (Inl e, s1) \<Rightarrow> (Some e, s1) | (Inr request, s1) \<Rightarrow>
              execute (writeData (slice b offset (offset + len))
                         (writeInt64 position (writeData h request)))
                cb ParseStatus ((info ''write'')\<lparr>i_handle := Some handle\<rparr>) s1)))))"

definition sftp_fstat :: "handle_arg \<Rightarrow> callback_arg \<Rightarrow> SftpClientCore \<Rightarrow> string option \<times> SftpClientCore" where
  "sftp_fstat handle callback s =
     (case checkCallback callback of Inl e \<Rightarrow> (Some e, s) | Inr cb \<Rightarrow>
      (case toHandle handle s of Inl e \<Rightarrow> (Some e, s) | Inr h \<Rightarrow>
       (case getRequest (PNum PT_FSTAT) s of (Inl e, s1) \<Rightarrow> (Some e, s1) | (Inr request, s1) \<Rightarrow>
          execute (writeData h request) cb ParseAttribs
            ((info ''fstat'')\<lparr>i_handle := Some handle\<rparr>) s1)))"

definition sftp_fsetstat ::
  "handle_arg \<Rightarrow> IStats option \<Rightarrow> callback_arg \<Rightarrow> SftpClientCore
     \<Rightarrow> string option \<times> SftpClientCore" where
  "sftp_fsetstat handle attrs callback s =
     (case checkCallback callback of Inl e \<Rightarrow> (Some e, s) | Inr cb \<Rightarrow>
      (case toHandle handle s of Inl e \<Rightarrow> (Some e, s) | Inr h \<Rightarrow>
       (case getRequest (PNum PT_FSETSTAT) s of (Inl e, s1) \<Rightarrow> (Some e, s1) | (Inr request, s1) \<Rightarrow>
        (case writeStats (writeData h request) attrs of
           Inl e \<Rightarrow> (Some e, s1)
         | Inr request1 \<Rightarrow>
             execute request1 cb ParseStatus
               ((info ''fsetstat'')\<lparr>i_handle := Some handle\<rparr>) s1))))"

definition sftp_readdir :: "handle_arg \<Rightarrow> callback_arg \<Rightarrow> SftpClientCore \<Rightarrow> string option \<times> SftpClientCore" where
  "sftp_readdir handle callback s =
     (case checkCallback callback of Inl e \<Rightarrow> (Some e, s) | Inr cb \<Rightarrow>
      (case toHandle handle s of Inl e \<Rightarrow> (Some e, s) | Inr h \<Rightarrow>
       (case getRequest (PNum PT_READDIR) s of (Inl e, s1) \<Rightarrow> (Some e, s1) | (Inr request, s1) \<Rightarrow>
          execute (writeData h request) cb ParseItems
            ((info ''readdir'')\<lparr>i_handle := Some handle\<rparr>) s1)))"

text \<open>\<^verbatim>\<open>RenameFlags.OVERWRITE\<close> is declared in \<^verbatim>\<open>fs-api.ts\<close>, which is not among the
  sources; it is the parameter \<open>OVERWRITE\<close>. The \<^verbatim>\<open>default\<close> branch of the switch ends in
  \<^verbatim>\<open>break\<close>, so the call of \<^verbatim>\<open>command\<close> after the switch runs in every case.\<close>

definition sftp_rename ::
  "int \<Rightarrow> (string \<Rightarrow> string \<Rightarrow> string + string) \<Rightarrow> string \<Rightarrow> string \<Rightarrow> int \<Rightarrow> callback_arg
     \<Rightarrow> SftpClientCore \<Rightarrow> string option \<times> SftpClientCore" where
  "sftp_rename OVERWRITE pc oldPath0 newPath0 flgs callback s =
     (case checkCallback callback of Inl e \<Rightarrow> (Some e, s) | Inr cb \<Rightarrow>
      (case checkPath pc oldPath0 ''oldPath'' of Inl e \<Rightarrow> (Some e, s) | Inr oldPath \<Rightarrow>
       (case checkPath pc newPath0 ''newPath'' of Inl e \<Rightarrow> (Some e, s) | Inr newPath \<Rightarrow>
        (let cinfo = (info ''rename'')\<lparr>i_oldPath := Some oldPath, i_newPath := Some newPath,
                                       i_flags := Some flgs\<rparr>;
             (cmd, s1) =
               (if flgs = OVERWRITE then (CFeature Feature_POSIX_RENAME, s)
                else if flgs = 0 then (CType PT_RENAME, s)
                else (CUndefined,
                      nextTick cb [AErr (createError ST_OP_UNSUPPORTED
                                           ''Unsupported rename flags'' cinfo)] s))
         in command cmd [oldPath, newPath] cb ParseStatus cinfo s1))))"

definition sftp_fcopy ::
  "handle_arg \<Rightarrow> int \<Rightarrow> int \<Rightarrow> handle_arg \<Rightarrow> int \<Rightarrow> callback_arg \<Rightarrow> SftpClientCore
     \<Rightarrow> string option \<times> SftpClientCore" where
  "sftp_fcopy fromHandle fromPosition len toHandle' toPosition callback s =
     (case checkCallback callback of Inl e \<Rightarrow> (Some e, s) | Inr cb \<Rightarrow>
      (case toHandle fromHandle s of Inl e \<Rightarrow> (Some e, s) | Inr fh \<Rightarrow>
       (case toHandle toHandle' s of Inl e \<Rightarrow> (Some e, s) | Inr th \<Rightarrow>
        (case checkPosition fromPosition of Some e \<Rightarrow> (Some e, s) | None \<Rightarrow>
         (case checkPosition toPosition of Some e \<Rightarrow> (Some e, s) | None \<Rightarrow>
          (case getRequest (PStr Ext_COPY_DATA) s of (Inl e, s1) \<Rightarrow> (Some e, s1) | (Inr request, s1) \<Rightarrow>
             execute (writeInt64 toPosition (writeData th (writeInt64 len
                        (writeInt64 fromPosition (writeData fh request)))))
               cb ParseStatus
               ((info ''fcopy'')\<lparr>i_fromHandle := Some fromHandle, i_toHandle := Some toHandle'\<rparr>)
               s1))))))"

definition sftp_fhash ::
  "handle_arg \<Rightarrow> string \<Rightarrow> int \<Rightarrow> int \<Rightarrow> int \<Rightarrow> callback_arg \<Rightarrow> SftpClientCore
     \<Rightarrow> string option \<times> SftpClientCore" where
  "sftp_fhash handle alg position len blockSize callback s =
     (case checkCallback callback of Inl e \<Rightarrow> (Some e, s) | Inr cb \<Rightarrow>
      (case toHandle handle s of Inl e \<Rightarrow> (Some e, s) | Inr h \<Rightarrow>
       (case checkPosition position of Some e \<Rightarrow> (Some e, s) | None \<Rightarrow>
        (case getRequest (PStr Ext_CHECK_FILE_HANDLE) s of
           (Inl e, s1) \<Rightarrow> (Some e, s1)
         | (Inr request, s1) \<Rightarrow>
             execute (writeInt32 blockSize (writeInt64 len (writeInt64 position
                        (writeString alg (writeData h request)))))
               cb ParseHash ((info ''fhash'')\<lparr>i_handle := Some handle\<rparr>) s1))))"

section \<open>Frames and states of the scenarios\<close>

text \<open>
  The frames a server sends and the READ frame the client sends, built with the same writer:
  a VERSION packet with a list of extension pairs whose values are plain strings, a DATA
  reply, and a READ request.
\<close>

definition enc_pairs :: "(string \<times> string) list \<Rightarrow> bytes" where
  "enc_pairs pairs = concat (map (\<lambda>(name, val). enc_string name @ enc_string val) pairs)"

definition version_packet :: "int \<Rightarrow> (string \<times> string) list \<Rightarrow> bytes" where
  "version_packet version pairs =
     finish \<lparr>w_type = PNum PT_VERSION, w_id = None, w_buf = enc_int32 version @ enc_pairs pairs\<rparr>"

definition data_reply :: "int \<Rightarrow> bytes \<Rightarrow> bytes" where
  "data_reply i d = finish \<lparr>w_type = PNum PT_DATA, w_id = Some i, w_buf = enc_data d\<rparr>"

definition read_request :: "int \<Rightarrow> bytes \<Rightarrow> int \<Rightarrow> int \<Rightarrow> bytes" where
  "read_request i h position len =
     finish \<lparr>w_type = PNum PT_READ, w_id = Some i,
             w_buf = enc_data h @ enc_int64 position @ enc_int32 len\<rparr>"

text \<open>\<open>nth_id i k\<close>: the value of the id counter \<open>k\<close> requests after it was \<open>i\<close>, each
  request advancing it as \<^verbatim>\<open>getRequest\<close> does, by \<^verbatim>\<open>(this._id + 1) & 0xFFFFFFFF\<close>. These are
  the ids of \<open>k + 1\<close> requests made in a row.\<close>

primrec nth_id :: "int \<Rightarrow> nat \<Rightarrow> int" where
  "nth_id i 0 = i"
| "nth_id i (Suc k) = js_and (nth_id i k + 1) 0xFFFFFFFF"

text \<open>\<open>empty_replies i k\<close>: \<open>k\<close> zero-byte DATA replies, addressed to the request ids
  \<open>nth_id i 0, nth_id i 1, \<dots>\<close>.\<close>

definition empty_replies :: "int \<Rightarrow> nat \<Rightarrow> bytes list" where
  "empty_replies i k = map (\<lambda>j. data_reply (nth_id i j) []) [0..<k]"

text \<open>The extension names whose values are structured, and the pair lists that consist of
  known names with plain string values.\<close>

definition structured_names :: "string list" where
  "structured_names =
     [Ext_VENDOR, Ext_NEWLINE3, Ext_SUPPORTED, Ext_SUPPORTED2, Ext_DEFAULT_FS_ATTRIBS]"

definition plain_pairs :: "(string \<times> string) list \<Rightarrow> bool" where
  "plain_pairs pairs \<longleftrightarrow>
     list_all (\<lambda>p. isKnown (fst p) \<and> fst p \<notin> set structured_names
                  \<and> length (fst p) < 2^32 \<and> length (snd p) < 2^32) pairs"

definition store_pairs ::
  "(string \<rightharpoonup> ext_value) \<Rightarrow> (string \<times> string) list \<Rightarrow> (string \<rightharpoonup> ext_value)" where
  "store_pairs exts pairs = foldl (\<lambda>m p. m(fst p \<mapsto> EStr (snd p))) exts pairs"

text \<open>
  The state of a read that has been re-submitted \<open>k\<close> times, seen from the state \<open>s\<close> in
  which the read was called with the counter at \<open>i\<close>: the counter has advanced \<open>k + 1\<close>
  times, the requests that were parked in \<open>s\<close> are still parked, followed by the latest READ,
  with \<open>retries = k\<close>, and nothing has been reported to the caller.
\<close>

definition retry_inv ::
  "SftpClientCore \<Rightarrow> nat \<Rightarrow> int \<Rightarrow> nat \<Rightarrow> bytes \<Rightarrow> bytes option \<Rightarrow> int \<Rightarrow> int \<Rightarrow> int
     \<Rightarrow> SftpCommandInfo \<Rightarrow> nat \<Rightarrow> SftpClientCore \<Rightarrow> bool" where
  "retry_inv s hst i cb h buf off len' pos cinfo k t \<longleftrightarrow>
     c_host t = Some hst \<and> c_id t = Some (nth_id i (Suc k))
     \<and> c_requests t =
         c_requests s @
         [(Some (nth_id i k),
           \<lparr>rq_callback = cb,
            rq_responseParser = ParseData (int k) h buf off (if k = 0 then len' else 0) pos,
            rq_info = cinfo\<rparr>)]
     \<and> sent t = sent s @ (hst, read_request i h pos len')
                        # map (\<lambda>j. (hst, read_request (nth_id i j) h pos 0)) [1..<Suc k]
     \<and> calls t = calls s \<and> ticks t = ticks s \<and> emitted t = emitted s"

text \<open>
  A session with id 1 on channel 7: after \<^verbatim>\<open>_init\<close> with callback 0; after a VERSION
  reply that advertises \<^verbatim>\<open>hardlink@openssh.com\<close> twice; and after a VERSION reply that
  advertises \<^verbatim>\<open>posix-rename@openssh.com\<close>.
\<close>

definition handshake_started :: SftpClientCore where
  "handshake_started = snd (core_init 7 0 (new_SftpClientCore 1))"

definition handshake_dup :: SftpClientCore where
  "handshake_dup =
     on_message (version_packet 3 [(Ext_HARDLINK, ''1''), (Ext_HARDLINK, ''2'')])
       handshake_started"

definition session_ready :: SftpClientCore where
  "session_ready =
     on_message (version_packet 3 [(Ext_POSIX_RENAME, ''1'')]) handshake_started"

text \<open>In that session: \<^verbatim>\<open>open("/a", "r", null, cb1)\<close> with a path check that accepts every
  path, and \<^verbatim>\<open>read(h, null, 0, 1024, 0, cb2)\<close> on a handle of the session.\<close>

definition first_open :: "string option \<times> SftpClientCore" where
  "first_open = sftp_open (\<lambda>p n. Inr p) ''/a'' (FlagsStr ''r'') None (Fn 1) session_ready"

definition first_read :: SftpClientCore where
  "first_read =
     snd (sftp_read (HObject (Some [0xAB]) (Some 1)) BFalsy 0 1024 0 (Fn 2) session_ready)"

text \<open>And, while that \<^verbatim>\<open>open\<close> is still pending, \<^verbatim>\<open>read(h, buffer, 0, 4, 0, cb2)\<close> with a
  buffer of four bytes.\<close>

definition busy_read :: SftpClientCore where
  "busy_read =
     snd (sftp_read (HObject (Some [0xAB]) (Some 1)) (BBuf [0, 0, 0, 0]) 0 4 0 (Fn 2)
            (snd first_open))"

section \<open>Sample data\<close>

definition sample_attrs :: SftpAttributes where
  "sample_attrs = \<lparr>flags = 15, size_attr = Some 4096, uid = Some 1000, gid = Some 100,
     mode = Some 33188, atime = Some 1000000, mtime = Some 2000000, nlink = None,
     metadata = None\<rparr>"

section \<open>Properties of the flags translator\<close>

lemmas open_flag_defs = READ_def WRITE_def APPEND_def CREATE_def TRUNC_def EXCL_def ALL_FLAGS_def

lemmas norm_defs = normalize_flags_def norm_mask_def norm_excl_def norm_trunc_def norm_rw_def
  norm_create_def open_flag_defs

lemma and_single_bit: "(w::32 word) AND 2 ^ k = (if bit w k then 2 ^ k else 0)"
  by (rule bit_word_eqI) (auto simp add: bit_simps)

lemma mask_bits:
  "(w::32 word) AND 63 =
     (w AND 2^0) OR (w AND 2^1) OR (w AND 2^2) OR (w AND 2^3) OR (w AND 2^4) OR (w AND 2^5)"
proof -
  have "(63::32 word) = 2^0 OR 2^1 OR 2^2 OR 2^3 OR 2^4 OR 2^5" by simp
  then show ?thesis by (simp only: bit.conj_disj_distrib)
qed

lemma normalize_flags_mask: "normalize_flags (w AND 63) = normalize_flags w"
  by (simp add: normalize_flags_def norm_mask_def open_flag_defs and.assoc)

lemma normalize_flags_tabulated: "normalize_flags w \<in> set tabulated"
proof -
  have "normalize_flags (w AND 63) \<in> set tabulated"
    unfolding mask_bits and_single_bit
    by (cases "bit w 0"; cases "bit w 1"; cases "bit w 2"; cases "bit w 3"; cases "bit w 4";
        cases "bit w 5"; simp add: norm_defs tabulated_def)
  then show ?thesis by (simp only: normalize_flags_mask)
qed

lemma flags_table_total: "x \<in> set tabulated \<Longrightarrow> \<exists>l. flags_table x = Inr l \<and> l \<noteq> []"
  unfolding tabulated_def
  apply (simp only: set_simps insert_iff empty_iff)
  apply (elim disjE FalseE)
  apply (simp_all add: flags_table_def)
  done

text \<open>
  Claim C7. For every 32-bit input, \<^verbatim>\<open>fromNumber\<close> masks and normalizes it onto one of the
  bitmasks handled by the final switch (1, 2, 3, 10, 11, 14, 15, 26, 27, 42, 43, 46, 47) and
  returns a non-empty list of mode strings; the trailing throw of "Unsupported flags" is never
  reached.
\<close>

theorem fromNumber_total:
  "normalize_flags w \<in> set tabulated
   \<and> (\<exists>l. fromNumber w = Inr l \<and> l \<noteq> [])
   \<and> fromNumber w \<noteq> Inl ''Unsupported flags''"
  using flags_table_total[OF normalize_flags_tabulated[of w]] normalize_flags_tabulated[of w]
  by (auto simp add: fromNumber_def)

lemma toNumber_cases:
  assumes "toNumber (FlagsStr s) = Inr n"
  shows "s \<in> set [''r'', ''r+'', ''w'', ''w+'', ''wx'', ''xw'', ''wx+'', ''xw+'', ''a'', ''a+'',
                   ''ax'', ''xa'', ''ax+'', ''xa+'']"
  using assms by (auto simp add: toNumber_def split: if_splits)

text \<open>
  Claim C8. For every symbolic open-mode string \<open>s\<close> that \<^verbatim>\<open>toNumber\<close> accepts, with
  \<open>n = toNumber s\<close>: normalization leaves \<open>n\<close> unchanged, \<^verbatim>\<open>fromNumber n\<close> returns a
  non-empty list, and converting its first string back gives \<open>n\<close> again, that is
  \<^verbatim>\<open>toNumber(fromNumber(toNumber(s))[0]) = toNumber(s)\<close>.
\<close>

theorem toNumber_fromNumber_roundtrip:
  assumes "toNumber (FlagsStr s) = Inr n"
  shows "normalize_flags n = n
         \<and> (\<exists>l. fromNumber n = Inr l \<and> l \<noteq> [] \<and> toNumber (FlagsStr (hd l)) = Inr n)"
  using toNumber_cases[OF assms] assms
  apply (simp only: set_simps insert_iff empty_iff)
  apply (elim disjE FalseE)
  apply (simp_all add: toNumber_def fromNumber_def flags_table_def norm_defs)
  done

theorem toNumber_fromNumber_roundtrip_witness:
  "toNumber (FlagsStr ''xw+'') = Inr 43
   \<and> normalize_flags 43 = 43
   \<and> (\<exists>l. fromNumber 43 = Inr l \<and> l \<noteq> [] \<and> toNumber (FlagsStr (hd l)) = Inr 43)"
proof -
  have h: "toNumber (FlagsStr ''xw+'') = Inr 43"
    by (simp add: toNumber_def open_flag_defs)
  show ?thesis
    using h toNumber_fromNumber_roundtrip[OF h] by simp
qed

section \<open>Properties of the codec\<close>

lemma be_word32:
  "(be_word [ucast (drop_bit 24 w), ucast (drop_bit 16 w), ucast (drop_bit 8 w), ucast w]
      :: 32 word) = (w :: 32 word)"
proof (rule bit_word_eqI)
  fix n :: nat
  assume "n < LENGTH(32)"
  then consider "n < 8" | "8 \<le> n \<and> n < 16" | "16 \<le> n \<and> n < 24" | "24 \<le> n \<and> n < 32"
    by fastforce
  then show "bit (be_word [ucast (drop_bit 24 w), ucast (drop_bit 16 w), ucast (drop_bit 8 w),
                 ucast w] :: 32 word) n = bit w n"
    by cases (auto simp add: be_word_def bit_simps)
qed

lemma be_word64:
  "(be_word [ucast (drop_bit 56 w), ucast (drop_bit 48 w), ucast (drop_bit 40 w),
     ucast (drop_bit 32 w), ucast (drop_bit 24 w), ucast (drop_bit 16 w), ucast (drop_bit 8 w),
     ucast w] :: 64 word) = (w :: 64 word)"
proof (rule bit_word_eqI)
  fix n :: nat
  assume "n < LENGTH(64)"
  then consider "n < 8" | "8 \<le> n \<and> n < 16" | "16 \<le> n \<and> n < 24" | "24 \<le> n \<and> n < 32"
     | "32 \<le> n \<and> n < 40" | "40 \<le> n \<and> n < 48" | "48 \<le> n \<and> n < 56" | "56 \<le> n \<and> n < 64"
    by fastforce
  then show "bit (be_word [ucast (drop_bit 56 w), ucast (drop_bit 48 w), ucast (drop_bit 40 w),
     ucast (drop_bit 32 w), ucast (drop_bit 24 w), ucast (drop_bit 16 w), ucast (drop_bit 8 w),
     ucast w] :: 64 word) n = bit w n"
    by cases (auto simp add: be_word_def bit_simps)
qed

lemma uint32_id: "0 \<le> v \<Longrightarrow> v < 2^32 \<Longrightarrow> uint (word_of_int v :: 32 word) = v"
  by (simp add: uint_word_of_int)

lemma sint32_id: "- (2^31) \<le> v \<Longrightarrow> v < 2^31 \<Longrightarrow> sint (word_of_int v :: 32 word) = v"
  by (simp add: signed_of_int signed_take_bit_int_eq_self)

lemma sint64_id: "- (2^63) \<le> v \<Longrightarrow> v < 2^63 \<Longrightarrow> sint (word_of_int v :: 64 word) = v"
  by (simp add: signed_of_int signed_take_bit_int_eq_self)

lemma readUint32_enc: "readUint32 (enc_int32 v @ r) = Inr (uint (word_of_int v :: 32 word), r)"
  by (simp add: readUint32_def take_bytes_def enc_int32_def be_bytes32_def be_word32)

lemma readInt32_enc: "readInt32 (enc_int32 v @ r) = Inr (sint (word_of_int v :: 32 word), r)"
  by (simp add: readInt32_def take_bytes_def enc_int32_def be_bytes32_def be_word32)

lemma readInt64_enc: "readInt64 (enc_int64 v @ r) = Inr (sint (word_of_int v :: 64 word), r)"
  by (simp add: readInt64_def take_bytes_def enc_int64_def be_bytes64_def be_word64)

lemma readData_enc:
  "length d < 2^32 \<Longrightarrow> readData (enc_data d @ r) = Inr (d, r)"
  by (simp add: readData_def enc_data_def readUint32_enc take_bytes_def unat_of_nat)

lemma char_of_byte_of_char: "char_of_byte (byte_of_char c) = c"
  by (simp add: char_of_byte_def byte_of_char_def unat_of_nat)

lemma readString_enc:
  "length s < 2^32 \<Longrightarrow> readString (enc_string s @ r) = Inr (s, r)"
  by (simp add: readString_def enc_string_def readData_enc comp_def char_of_byte_of_char)

section \<open>Properties of the attribute block\<close>

lemma js_not_EXTENDED: "js_not ATTR_EXTENDED = 2147483647"
  by (simp add: js_not_def ATTR_EXTENDED_def)

lemma js_and_EXTENDED_small:
  assumes "0 \<le> f" "f < 2^31"
  shows "js_and f ATTR_EXTENDED = 0"
proof -
  have "\<not> bit (word_of_int f :: 32 word) 31"
    using assms by (simp add: bit_word_of_int_iff) (simp add: bit_iff_odd)
  then have "(word_of_int f :: 32 word) AND 2 ^ 31 = 0"
    by (simp only: and_single_bit if_False)
  then show ?thesis
    by (simp add: js_and_def ATTR_EXTENDED_def)
qed

lemma js_and_clear_EXTENDED:
  assumes "0 \<le> f" "f < 2^32" "js_and f ATTR_EXTENDED \<noteq> 0"
  shows "js_and f (js_not ATTR_EXTENDED) = f - 2^31"
proof -
  let ?w = "word_of_int f :: 32 word"
  have big: "2^31 \<le> f"
    using assms js_and_EXTENDED_small[of f] by force
  have m: "(2147483647 :: 32 word) = mask 31"
    by (simp add: mask_eq_exp_minus_1)
  have "js_and f (js_not ATTR_EXTENDED) = sint (take_bit 31 ?w)"
    by (simp add: js_and_def js_not_EXTENDED m take_bit_eq_mask)
  also have "\<dots> = signed_take_bit 31 (uint (take_bit 31 ?w))"
    by (simp add: sint_uint)
  also have "uint (take_bit 31 ?w) = take_bit 31 f"
    using assms by (simp only: unsigned_take_bit_eq uint32_id)
  also have "signed_take_bit 31 (take_bit 31 f) = take_bit 31 f"
    by (rule signed_take_bit_int_eq_self) (simp_all add: take_bit_eq_mod)
  also have "take_bit 31 f = f - 2^31"
    using assms big
    by (simp add: take_bit_eq_mod)
       (smt (verit) mod_pos_pos_trivial mod_add_self2 minus_mod_self2)
  finally show ?thesis .
qed

lemma w_buf_simps [simp]:
  "w_buf (writeInt32 v w) = w_buf w @ enc_int32 v"
  "w_buf (writeInt64 v w) = w_buf w @ enc_int64 v"
  "w_buf (writeString s w) = w_buf w @ enc_string s"
  "w_buf (writeData d w) = w_buf w @ enc_data d"
  "w_buf (writeByte v w) = w_buf w @ enc_byte v"
  by (simp_all add: writeInt32_def writeInt64_def writeString_def writeData_def writeByte_def
      writeBytes_def)

lemma seconds_whole: "0 \<le> ms \<Longrightarrow> ms mod 1000 = 0 \<Longrightarrow> 1000 * seconds_of ms = ms"
  by (auto simp add: seconds_of_def)

lemma readUint32_enc0: "readUint32 (enc_int32 v) = Inr (uint (word_of_int v :: 32 word), [])"
  using readUint32_enc[of v "[]"] by simp

lemma readInt32_enc0: "readInt32 (enc_int32 v) = Inr (sint (word_of_int v :: 32 word), [])"
  using readInt32_enc[of v "[]"] by simp

lemma readInt64_enc0: "readInt64 (enc_int64 v) = Inr (sint (word_of_int v :: 64 word), [])"
  using readInt64_enc[of v "[]"] by simp

lemmas read_enc = readUint32_enc readInt32_enc readInt64_enc readUint32_enc0 readInt32_enc0
  readInt64_enc0

lemmas attr_flag_defs = ATTR_SIZE_def ATTR_UIDGID_def ATTR_PERMISSIONS_def ATTR_ACMODTIME_def
  ATTR_EXTENDED_def

lemmas codec_eval = enc_int32_def enc_int64_def enc_byte_def enc_data_def enc_string_def
  be_bytes32_def be_bytes64_def readUint32_def readInt32_def readInt64_def readByte_def
  readData_def readString_def skipString_def readStructuredData_def take_bytes_def be_word_def
  bnd_def

text \<open>
  Claim C4, as the code has it. For every representable attributes record \<open>x\<close> without a
  metadata payload, encoding succeeds and decoding the bytes gives \<open>x\<close> back when the
  EXTENDED flag is clear; when it is set, decoding gives \<open>x\<close> with the EXTENDED bit removed
  from \<open>flags\<close> (the constructor clears it on purpose) and every other field unchanged.
\<close>

theorem attrs_roundtrip:
  assumes "representable x" "metadata x = None"
  shows "\<exists>b. encode_attrs x = Inr b
           \<and> decode_attrs b =
               Inr (if js_and (flags x) ATTR_EXTENDED \<noteq> 0 then x\<lparr>flags := flags x - 2^31\<rparr>
                    else x)"
proof (cases x)
  case (fields f sz u g m a b n md)
  show ?thesis
    using assms unfolding fields
    apply (simp add: representable_def in_range_def whole_seconds_def
             split: option.splits if_splits)
    apply (auto simp add: encode_attrs_def decode_attrs_def SftpAttributes_write_def
             SftpAttributes_read_def bnd_def Let_def read_enc uint32_id sint32_id sint64_id
             js_and_clear_EXTENDED seconds_whole js_num_def seconds_of_def)
    done
qed

theorem attrs_roundtrip_witness:
  "representable sample_attrs \<and> metadata sample_attrs = None
   \<and> (\<exists>b. encode_attrs sample_attrs = Inr b \<and> decode_attrs b = Inr sample_attrs)"
proof -
  have r: "representable sample_attrs"
    by (simp add: representable_def sample_attrs_def in_range_def whole_seconds_def js_and_def
        attr_flag_defs)
  have m: "metadata sample_attrs = None"
    by (simp add: sample_attrs_def)
  have e: "js_and (flags sample_attrs) ATTR_EXTENDED = 0"
    by (simp add: sample_attrs_def js_and_def attr_flag_defs)
  show ?thesis
    using attrs_roundtrip[OF r m] r m e by simp
qed

text \<open>
  Claim C4 as stated fails: the record whose only content is the EXTENDED flag is
  representable, is encoded as the flags word and a zero count, and is decoded with
  \<open>flags = 0\<close>, which is not the record that was encoded.
\<close>

theorem attrs_roundtrip_counterexample:
  "representable (new_SftpAttributes\<lparr>flags := ATTR_EXTENDED\<rparr>)
   \<and> bnd (encode_attrs (new_SftpAttributes\<lparr>flags := ATTR_EXTENDED\<rparr>)) decode_attrs
        = Inr (new_SftpAttributes\<lparr>flags := 0\<rparr>)
   \<and> bnd (encode_attrs (new_SftpAttributes\<lparr>flags := ATTR_EXTENDED\<rparr>)) decode_attrs
        \<noteq> Inr (new_SftpAttributes\<lparr>flags := ATTR_EXTENDED\<rparr>)"
  by (simp add: representable_def new_SftpAttributes_def encode_attrs_def decode_attrs_def
      SftpAttributes_write_def SftpAttributes_read_def Let_def js_and_def js_not_def
      attr_flag_defs codec_eval)

text \<open>
  With a metadata payload attached, \<^verbatim>\<open>write\<close> announces one extended pair and its name, but
  \<^verbatim>\<open>writeMetadata\<close> adds nothing to the frame: the decoder then runs out of bytes.
\<close>

lemma metadata_not_written:
  "bnd (encode_attrs (new_SftpAttributes\<lparr>flags := ATTR_EXTENDED,
                         metadata := Some [(''k'', JBool True)]\<rparr>)) decode_attrs
     = Inl ''BAD_MESSAGE''"
  by (simp add: new_SftpAttributes_def encode_attrs_def decode_attrs_def
      SftpAttributes_write_def SftpAttributes_read_def Let_def js_and_def js_not_def
      attr_flag_defs codec_eval writeMetadata_def METADATA_def readMetadata_def
      byte_of_char_def char_of_byte_def)

section \<open>Properties of the engine\<close>

lemmas pt_defs = PT_INIT_def PT_VERSION_def PT_OPEN_def PT_CLOSE_def PT_READ_def PT_WRITE_def
  PT_FSTAT_def PT_FSETSTAT_def PT_READDIR_def PT_RENAME_def PT_STATUS_def PT_HANDLE_def
  PT_DATA_def PT_NAME_def PT_ATTRS_def PT_EXTENDED_def PT_EXTENDED_REPLY_def

lemmas st_defs = ST_OK_def ST_EOF_def ST_NO_SUCH_FILE_def ST_PERMISSION_DENIED_def ST_FAILURE_def
  ST_BAD_MESSAGE_def ST_NO_CONNECTION_def ST_CONNECTION_LOST_def ST_OP_UNSUPPORTED_def

lemmas ext_defs = Ext_POSIX_RENAME_def Ext_STATVFS_def Ext_FSTATVFS_def Ext_HARDLINK_def
  Ext_FSYNC_def Ext_NEWLINE_def Ext_NEWLINE2_def Ext_NEWLINE3_def Ext_CHARSET_def METADATA_def
  Ext_VERSIONS_def Ext_VENDOR_def Ext_COPY_FILE_def Ext_COPY_DATA_def Ext_CHECK_FILE_def
  Ext_CHECK_FILE_HANDLE_def Ext_CHECK_FILE_NAME_def Ext_SUPPORTED_def Ext_SUPPORTED2_def
  Ext_DEFAULT_FS_ATTRIBS_def Ext_SYMLINK_ORDER_def Ext_LINK_ORDER_def
  Feature_HARDLINK_def Feature_POSIX_RENAME_def Feature_COPY_DATA_def
  Feature_CHECK_FILE_HANDLE_def

subsection \<open>Frames\<close>

lemma length_enc [simp]:
  "length (enc_int32 v) = 4" "length (enc_int64 v) = 8" "length (enc_byte v) = 1"
  "length (enc_data d) = 4 + length d" "length (enc_string x) = 4 + length x"
  by (simp_all add: enc_int32_def enc_int64_def enc_byte_def enc_data_def enc_string_def
      be_bytes32_def be_bytes64_def)

lemma readByte_enc: "0 \<le> v \<Longrightarrow> v < 256 \<Longrightarrow> readByte (enc_byte v @ r) = Inr (v, r)"
  by (simp add: readByte_def enc_byte_def uint_word_of_int)

lemma readData_empty: "readData (enc_data []) = Inr ([], [])"
  using readData_enc[of "[]" "[]"] by simp

lemma readUint32_length_prefix:
  assumes "length body < 2^32"
  shows "readUint32 (enc_int32 (int (length body)) @ body) = Inr (int (length body), body)"
proof -
  have "uint (word_of_int (int (length body)) :: 32 word) = int (length body)"
    using assms by (intro uint32_id) simp_all
  then show ?thesis by (simp only: readUint32_enc)
qed

lemma reader_frame:
  assumes "0 \<le> t" "t < 256" "t \<noteq> PT_INIT" "t \<noteq> PT_VERSION"
    and "- (2^31) \<le> j" "j < 2^31" "length payload + 5 < 2^32"
  shows "new_SftpPacketReader (finish \<lparr>w_type = PNum t, w_id = Some j, w_buf = payload\<rparr>)
           = Inr \<lparr>r_type = t, r_id = Some j, r_buf = payload\<rparr>"
proof -
  define body where "body = enc_byte t @ enc_int32 j @ payload"
  have len: "length body < 2^32"
    using assms by (simp add: body_def)
  have f: "finish \<lparr>w_type = PNum t, w_id = Some j, w_buf = payload\<rparr>
             = enc_int32 (int (length body)) @ body"
    using assms by (simp add: finish_def Let_def body_def js_num_def)
  show ?thesis
    unfolding f new_SftpPacketReader_def readUint32_length_prefix[OF len]
    using assms by (simp add: bnd_def body_def readByte_enc readInt32_enc sint32_id)
qed

lemma reader_data_reply:
  assumes "- (2^31) \<le> j" "j < 2^31" "length d + 9 < 2^32"
  shows "new_SftpPacketReader (data_reply j d)
           = Inr \<lparr>r_type = PT_DATA, r_id = Some j, r_buf = enc_data d\<rparr>"
  unfolding data_reply_def using assms by (intro reader_frame) (simp_all add: pt_defs)

lemma length_data_reply: "length (data_reply j d) = 13 + length d"
  by (simp add: data_reply_def finish_def Let_def js_num_def pt_defs)

lemma reader_version:
  assumes "length payload + 1 < 2^32"
  shows "new_SftpPacketReader (finish \<lparr>w_type = PNum PT_VERSION, w_id = None, w_buf = payload\<rparr>)
           = Inr \<lparr>r_type = PT_VERSION, r_id = None, r_buf = payload\<rparr>"
proof -
  define body where "body = enc_byte PT_VERSION @ payload"
  have len: "length body < 2^32"
    using assms by (simp add: body_def)
  have f: "finish \<lparr>w_type = PNum PT_VERSION, w_id = None, w_buf = payload\<rparr>
             = enc_int32 (int (length body)) @ body"
    by (simp add: finish_def Let_def body_def)
  have v: "readByte body = Inr (PT_VERSION, payload)"
    unfolding body_def by (intro readByte_enc) (simp_all add: pt_defs)
  show ?thesis
    unfolding f new_SftpPacketReader_def readUint32_length_prefix[OF len]
    by (simp add: bnd_def v)
qed

subsection \<open>Request ids\<close>

lemma js_and_mask32: "js_and x 0xFFFFFFFF = sint (word_of_int x :: 32 word)"
proof -
  have e: "(word_of_int 4294967295 :: 32 word) = - 1" by simp
  show ?thesis by (simp only: js_and_def e) simp
qed

lemma getRequest_next:
  assumes "c_id s = Some i" "t \<noteq> PNum PT_INIT"
  shows "getRequest t s = (Inr \<lparr>w_type = t, w_id = Some i, w_buf = []\<rparr>,
                           s\<lparr>c_id := Some (sint (word_of_int (i + 1) :: 32 word))\<rparr>)"
  using assms by (simp add: getRequest_def js_and_mask32 js_num_def)

lemma sint32_cong: "sint (word_of_int x :: 32 word) mod 2^32 = x mod 2^32"
proof -
  have "uint (word_of_int (sint (word_of_int x :: 32 word)) :: 32 word)
          = uint (word_of_int x :: 32 word)"
    by simp
  then show ?thesis by (simp only: uint_word_of_int) simp
qed

text \<open>
  Claim C2, as the code has it. The handshake request takes no id (its id field is unset)
  and sets the counter to 1. Every other request takes the current counter value as its id
  and advances the counter by one modulo \<open>2^32\<close>, the result held as a signed 32-bit number
  (so the successor of \<open>i\<close> is \<open>i + 1\<close> until the counter wraps, and 0 is reached only by
  wrapping). The first request after the handshake therefore carries id 1.
\<close>

theorem request_id_allocation:
  "getRequest (PNum PT_INIT) (new_SftpClientCore sid)
     = (Inr \<lparr>w_type = PNum PT_INIT, w_id = None, w_buf = []\<rparr>,
        (new_SftpClientCore sid)\<lparr>c_id := Some 1\<rparr>)
   \<and> (\<forall>s i t. c_id s = Some i \<and> t \<noteq> PNum PT_INIT \<longrightarrow>
         getRequest t s = (Inr \<lparr>w_type = t, w_id = Some i, w_buf = []\<rparr>,
                           s\<lparr>c_id := Some (js_and (i + 1) 0xFFFFFFFF)\<rparr>))
   \<and> (\<forall>i. js_and (i + 1) 0xFFFFFFFF mod 2^32 = (i + 1) mod 2^32
          \<and> - (2^31) \<le> js_and (i + 1) 0xFFFFFFFF \<and> js_and (i + 1) 0xFFFFFFFF < 2^31)
   \<and> (\<forall>i. - (2^31) \<le> i + 1 \<and> i + 1 < 2^31 \<longrightarrow> js_and (i + 1) 0xFFFFFFFF = i + 1)
   \<and> (\<forall>t. t \<noteq> PNum PT_INIT \<longrightarrow>
         fst (getRequest t (snd (getRequest (PNum PT_INIT) (new_SftpClientCore sid))))
           = Inr \<lparr>w_type = t, w_id = Some 1, w_buf = []\<rparr>)"
proof -
  have a: "getRequest (PNum PT_INIT) (new_SftpClientCore sid)
     = (Inr \<lparr>w_type = PNum PT_INIT, w_id = None, w_buf = []\<rparr>,
        (new_SftpClientCore sid)\<lparr>c_id := Some 1\<rparr>)"
    by (simp add: getRequest_def new_SftpClientCore_def)
  have b: "\<And>s i t. c_id s = Some i \<and> t \<noteq> PNum PT_INIT \<Longrightarrow>
         getRequest t s = (Inr \<lparr>w_type = t, w_id = Some i, w_buf = []\<rparr>,
                           s\<lparr>c_id := Some (js_and (i + 1) 0xFFFFFFFF)\<rparr>)"
    by (simp add: getRequest_def js_num_def)
  have c: "\<And>i. js_and (i + 1) 0xFFFFFFFF mod 2^32 = (i + 1) mod 2^32
          \<and> - (2^31) \<le> js_and (i + 1) 0xFFFFFFFF \<and> js_and (i + 1) 0xFFFFFFFF < 2^31"
    using sint_ge[where 'a=32] sint_lt[where 'a=32]
    by (simp only: js_and_mask32 sint32_cong) simp
  have d: "js_and (i + 1) 0xFFFFFFFF = i + 1" if "- (2^31) \<le> i + 1 \<and> i + 1 < 2^31" for i
  proof -
    from that have "sint (word_of_int (i + 1) :: 32 word) = i + 1"
      by (intro sint32_id) simp_all
    then show ?thesis by (simp only: js_and_mask32)
  qed
  have e: "\<And>t. t \<noteq> PNum PT_INIT \<Longrightarrow>
         fst (getRequest t (snd (getRequest (PNum PT_INIT) (new_SftpClientCore sid))))
           = Inr \<lparr>w_type = t, w_id = Some 1, w_buf = []\<rparr>"
    unfolding a by (simp add: getRequest_def)
  from a b c d e show ?thesis by blast
qed

subsection \<open>Handshake\<close>

lemma SftpExtensions_read_plain:
  assumes "isKnown name" "name \<notin> set structured_names" "length val < 2^32"
  shows "SftpExtensions_read (enc_string val @ rest) name = Inr (EStr val, rest)"
  using assms by (simp add: SftpExtensions_read_def structured_names_def bnd_def readString_enc)

lemma read_extensions_plain:
  assumes "isKnown name" "name \<notin> set structured_names" "length name < 2^32"
    "length val < 2^32"
  shows "read_extensions (enc_string name @ enc_string val @ rest) exts
           = read_extensions rest (exts(name \<mapsto> EStr val))"
  using assms
  by (subst read_extensions.simps)
     (simp add: readString_enc SftpExtensions_read_plain Let_def)

lemma read_extensions_pairs:
  "plain_pairs pairs \<Longrightarrow> read_extensions (enc_pairs pairs) exts = (None, store_pairs exts pairs)"
proof (induction pairs arbitrary: exts)
  case Nil
  show ?case by (subst read_extensions.simps) (simp add: enc_pairs_def store_pairs_def)
next
  case (Cons p pairs)
  obtain n v where p: "p = (n, v)" by (cases p)
  from Cons.prems have h: "isKnown n" "n \<notin> set structured_names" "length n < 2^32"
      "length v < 2^32"
    and rest: "plain_pairs pairs"
    by (simp_all add: plain_pairs_def p)
  have "read_extensions (enc_pairs (p # pairs)) exts
          = read_extensions (enc_string n @ enc_string v @ enc_pairs pairs) exts"
    by (simp add: enc_pairs_def p)
  also have "\<dots> = read_extensions (enc_pairs pairs) (exts(n \<mapsto> EStr v))"
    by (rule read_extensions_plain[OF h])
  also have "\<dots> = (None, store_pairs (exts(n \<mapsto> EStr v)) pairs)"
    by (rule Cons.IH[OF rest])
  finally show ?case by (simp add: store_pairs_def p)
qed

text \<open>What the handshake parser does with a VERSION packet of protocol version 3 whose
  extension pairs are plain: each pair overwrites the entry of its name.\<close>

lemma on_message_version:
  assumes req: "c_requests t = [(None, \<lparr>rq_callback = cb, rq_responseParser = ParseInit hst,
                                       rq_info = cinfo\<rparr>)]"
    and plain: "plain_pairs pairs"
    and len: "length (enc_pairs pairs) + 5 < 2^32"
  shows "on_message (version_packet 3 pairs) t =
     (let exts = store_pairs (c_extensions t) pairs;
          t1 = t\<lparr>c_bytesReceived := c_bytesReceived t + int (length (version_packet 3 pairs)),
                 c_requests := [], c_extensions := exts\<rparr>;
          t2 = (if contains (js_string (exts Ext_HARDLINK)) ''1''
                then t1\<lparr>c_features := (c_features t1)(Feature_HARDLINK \<mapsto> Ext_HARDLINK)\<rparr>
                else t1);
          t3 = (if contains (js_string (exts Ext_POSIX_RENAME)) ''1''
                then t2\<lparr>c_features := (c_features t2)(Feature_POSIX_RENAME \<mapsto> Ext_POSIX_RENAME)\<rparr>
                else t2);
          t4 = t3\<lparr>c_features :=
                    (c_features t3)(Feature_CHECK_FILE_HANDLE \<mapsto> Ext_CHECK_FILE_HANDLE,
                                    Feature_COPY_DATA \<mapsto> Ext_COPY_DATA)\<rparr>
      in invoke cb [ANull] (t4\<lparr>c_ready := True\<rparr>))"
proof -
  have rd: "new_SftpPacketReader (version_packet 3 pairs)
              = Inr \<lparr>r_type = PT_VERSION, r_id = None, r_buf = enc_int32 3 @ enc_pairs pairs\<rparr>"
    unfolding version_packet_def using len by (intro reader_version) simp
  have v3: "readInt32 (enc_int32 3 @ enc_pairs pairs) = Inr (3, enc_pairs pairs)"
    by (simp add: readInt32_enc)
  show ?thesis
    using req
    by (simp add: on_message_def core_process_def rd run_parser_def parseInit_def v3
        read_extensions_pairs[OF plain] Let_def)
qed

lemma handshake_started_eq:
  "handshake_started = (new_SftpClientCore 1)\<lparr>c_host := Some 7, c_id := Some 1,
      sent := [(7, [0, 0, 0, 5, 1, 0, 0, 0, 3])], c_bytesSent := 9,
      c_requests := [(None, \<lparr>rq_callback = 0, rq_responseParser = ParseInit 7,
                             rq_info = info ''init''\<rparr>)]\<rparr>"
  by (simp add: handshake_started_def core_init_def new_SftpClientCore_def getRequest_def
      execute_def Let_def finish_def writeInt32_def writeBytes_def pt_defs codec_eval)

lemma plain_hardlink_twice: "plain_pairs [(Ext_HARDLINK, ''1''), (Ext_HARDLINK, ''2'')]"
  by (simp add: plain_pairs_def isKnown_def known_names_def structured_names_def ext_defs)

lemma plain_posix_rename: "plain_pairs [(Ext_POSIX_RENAME, ''1'')]"
  by (simp add: plain_pairs_def isKnown_def known_names_def structured_names_def ext_defs)

lemma handshake_started_parked:
  "c_requests handshake_started
     = [(None, \<lparr>rq_callback = 0, rq_responseParser = ParseInit 7, rq_info = info ''init''\<rparr>)]"
  by (simp add: handshake_started_eq)

lemmas handshake_dup_eq =
  on_message_version[OF handshake_started_parked plain_hardlink_twice, folded handshake_dup_def]

lemmas session_ready_eq =
  on_message_version[OF handshake_started_parked plain_posix_rename, folded session_ready_def]

lemma session_ready_fields:
  "c_sessionId session_ready = 1" "c_host session_ready = Some 7" "c_id session_ready = Some 1"
  "c_requests session_ready = []" "c_ready session_ready"
  "c_maxReadBlockLength session_ready = 262144"
  "sent session_ready = [(7, [0, 0, 0, 5, 1, 0, 0, 0, 3])]"
  "calls session_ready = [Call 0 [ANull]]" "ticks session_ready = []"
  "emitted session_ready = []" "closed session_ready = []"
  "c_features session_ready ''undefined'' = None"
  "c_features session_ready Feature_POSIX_RENAME = Some Ext_POSIX_RENAME"
  by (simp_all add: session_ready_eq enc_pairs_def handshake_started_eq new_SftpClientCore_def
      Let_def invoke_def store_pairs_def contains_def js_string_def ext_defs)

text \<open>
  Claim C1 on the code. After the handshake has delivered
  \<^verbatim>\<open>(hardlink@openssh.com, "1")\<close> and then \<^verbatim>\<open>(hardlink@openssh.com, "2")\<close>, the value stored
  for the name is \<^verbatim>\<open>"2"\<close>, not \<^verbatim>\<open>"1,2"\<close>; \<^verbatim>\<open>contains\<close> on the stored value reports
  \<^verbatim>\<open>"1"\<close> as absent, and the hard-link feature is not enabled. (On the value \<^verbatim>\<open>"1,2"\<close>
  itself \<^verbatim>\<open>contains\<close> answers as the claim says.)
\<close>

theorem handshake_dup_keeps_last:
  "c_extensions handshake_dup Ext_HARDLINK = Some (EStr ''2'')
   \<and> \<not> contains (js_string (c_extensions handshake_dup Ext_HARDLINK)) ''1''
   \<and> contains (js_string (c_extensions handshake_dup Ext_HARDLINK)) ''2''
   \<and> c_features handshake_dup Feature_HARDLINK = None
   \<and> c_ready handshake_dup \<and> calls handshake_dup = [Call 0 [ANull]]
   \<and> emitted handshake_dup = []
   \<and> contains ''1,2'' ''1'' \<and> contains ''1,2'' ''2'' \<and> \<not> contains ''1,2'' ''3''"
  by (simp add: handshake_dup_eq enc_pairs_def handshake_started_eq new_SftpClientCore_def
      Let_def invoke_def store_pairs_def contains_def js_string_def ext_defs)

text \<open>The request ids at work: in the ready session of the scenario, the counter is 1 and
  the next request takes id 1.\<close>

theorem request_id_allocation_witness:
  "(c_id session_ready = Some 1 \<and> PNum PT_OPEN \<noteq> PNum PT_INIT)
   \<and> getRequest (PNum PT_OPEN) session_ready
       = (Inr \<lparr>w_type = PNum PT_OPEN, w_id = Some 1, w_buf = []\<rparr>,
          session_ready\<lparr>c_id := Some (js_and (1 + 1) 0xFFFFFFFF)\<rparr>)
   \<and> js_and (1 + 1) 0xFFFFFFFF = 2"
proof -
  have h: "c_id session_ready = Some 1 \<and> PNum PT_OPEN \<noteq> PNum PT_INIT"
    by (simp add: session_ready_fields pt_defs)
  have r: "- (2^31) \<le> (1::int) + 1 \<and> (1::int) + 1 < 2^31" by simp
  from request_id_allocation[of 1] h r show ?thesis
    by (metis one_add_one)
qed

text \<open>
  Claim C2 as stated fails: the first \<^verbatim>\<open>open\<close> after the handshake sends an OPEN frame
  whose request id is 1 (the four bytes after the type byte 3), and is parked under id 1,
  not 2.
\<close>

theorem first_open_id_counterexample:
  "fst first_open = None
   \<and> map snd (sent (snd first_open))
       = [[0, 0, 0, 5, 1, 0, 0, 0, 3],
          [0, 0, 0, 19, 3, 0, 0, 0, 1, 0, 0, 0, 2, 47, 97, 0, 0, 0, 1, 0, 0, 0, 0]]
   \<and> map fst (c_requests (snd first_open)) = [Some 1]
   \<and> map fst (c_requests (snd first_open)) \<noteq> [Some 2]"
proof -
  have g: "getRequest (PNum PT_OPEN) session_ready
             = (Inr \<lparr>w_type = PNum PT_OPEN, w_id = Some 1, w_buf = []\<rparr>,
                session_ready\<lparr>c_id := Some (sint (word_of_int (1 + 1) :: 32 word))\<rparr>)"
    by (intro getRequest_next) (simp_all add: session_ready_fields pt_defs)
  have n: "toNumber (FlagsStr ''r'') = Inr 1"
    by (simp add: toNumber_def open_flag_defs)
  have w: "writeStats (writeInt32 1
                         (writeString ''/a'' \<lparr>w_type = PNum PT_OPEN, w_id = Some 1, w_buf = []\<rparr>)) None
             = Inr \<lparr>w_type = PNum PT_OPEN, w_id = Some 1,
                    w_buf = [0, 0, 0, 2, 47, 97, 0, 0, 0, 1, 0, 0, 0, 0]\<rparr>"
    by (simp add: writeStats_def SftpAttributes_from_def SftpAttributes_write_def
        new_SftpAttributes_def Let_def js_and_def attr_flag_defs writeInt32_def writeString_def
        writeBytes_def codec_eval byte_of_char_def)
  have f: "finish \<lparr>w_type = PNum PT_OPEN, w_id = Some 1,
                    w_buf = [0, 0, 0, 2, 47, 97, 0, 0, 0, 1, 0, 0, 0, 0]\<rparr>
             = [0, 0, 0, 19, 3, 0, 0, 0, 1, 0, 0, 0, 2, 47, 97, 0, 0, 0, 1, 0, 0, 0, 0]"
    by (simp add: finish_def Let_def js_num_def pt_defs codec_eval)
  show ?thesis
    unfolding first_open_def sftp_open_def
    by (simp add: checkCallback_def checkPath_def bnd_def g n w execute_def Let_def f
        session_ready_fields)
qed

subsection \<open>Teardown\<close>

lemma foldl_invoke_fields:
  "c_host (foldl (\<lambda>t r. invoke (f r) (g r) t) s rs) = c_host s"
  "c_requests (foldl (\<lambda>t r. invoke (f r) (g r) t) s rs) = c_requests s"
  "ticks (foldl (\<lambda>t r. invoke (f r) (g r) t) s rs) = ticks s"
  "sent (foldl (\<lambda>t r. invoke (f r) (g r) t) s rs) = sent s"
  "calls (foldl (\<lambda>t r. invoke (f r) (g r) t) s rs) = calls s @ map (\<lambda>r. Call (f r) (g r)) rs"
  by (induction rs arbitrary: s) (simp_all add: invoke_def)

text \<open>After \<^verbatim>\<open>end\<close> the session is detached and the table is empty; the callbacks called are
  those of the entries that \<^verbatim>\<open>forEach\<close> visits, each with the CONNECTION_LOST error.\<close>

lemma core_end_result:
  "c_host (core_end s) = None \<and> c_requests (core_end s) = []
   \<and> ticks (core_end s) = ticks s \<and> sent (core_end s) = sent s
   \<and> calls (core_end s)
       = calls s @ map (\<lambda>r. Call (rq_callback r)
                               [AErr (createError ST_CONNECTION_LOST ''Connection closed''
                                        (rq_info r))])
                     (forEach_elements (c_requests s))"
  by (cases "c_host s") (simp_all add: core_end_def failRequests_def Let_def foldl_invoke_fields)

lemma forEach_elements_indexed:
  assumes "list_all (\<lambda>kv. is_index (fst kv)) arr"
  shows "length (forEach_elements arr) = length arr"
    and "set (forEach_elements arr) = snd ` set arr"
proof -
  have f: "filter (\<lambda>kv. is_index (fst kv)) arr = arr"
    using assms by (simp add: list_all_iff)
  show "length (forEach_elements arr) = length arr"
    by (simp add: forEach_elements_def f)
  show "set (forEach_elements arr) = snd ` set arr"
    by (simp add: forEach_elements_def f)
qed

text \<open>A submit on a detached session is neither sent nor parked: the caller's callback is
  scheduled with the NO_CONNECTION error.\<close>

lemma execute_detached:
  assumes "c_host s = None"
  shows "execute request cb p cinfo s
           = (None, s\<lparr>ticks := ticks s @ [Call cb [AErr (createError ST_NO_CONNECTION
                                                          ''Not connected'' cinfo)]]\<rparr>)"
    and "e_code (createError ST_NO_CONNECTION ''Not connected'' cinfo) = ''ENOTCONN''"
  using assms by (simp_all add: execute_def nextTick_def createError_def st_defs)

text \<open>
  Claim C5 on the code. A session whose handshake is still pending has one parked
  continuation, the callback of \<^verbatim>\<open>_init\<close>, stored under the key \<^verbatim>\<open>null\<close>. \<^verbatim>\<open>end\<close>
  detaches the channel and empties the table, but \<^verbatim>\<open>forEach\<close> does not visit that entry:
  no callback is called or scheduled.
\<close>

theorem end_skips_pending_handshake:
  "map (\<lambda>kv. (fst kv, rq_callback (snd kv))) (c_requests handshake_started) = [(None, 0)]
   \<and> calls (core_end handshake_started) = []
   \<and> ticks (core_end handshake_started) = []
   \<and> c_requests (core_end handshake_started) = []
   \<and> c_host (core_end handshake_started) = None
   \<and> closed (core_end handshake_started) = [(7, None)]"
  by (simp add: handshake_started_eq new_SftpClientCore_def core_end_def failRequests_def
      forEach_elements_def is_index_def Let_def)

subsection \<open>Handles\<close>

text \<open>
  Claim C6. Called with a callback that is a function and a handle object whose owner is
  not the current session, each of \<^verbatim>\<open>close\<close>, \<^verbatim>\<open>read\<close>, \<^verbatim>\<open>write\<close>, \<^verbatim>\<open>fstat\<close>,
  \<^verbatim>\<open>fsetstat\<close>, \<^verbatim>\<open>readdir\<close>, \<^verbatim>\<open>fcopy\<close> (for its source handle, and for its target handle
  when the source handle is the session's own) and \<^verbatim>\<open>fhash\<close> throws "Invalid handle" and
  leaves the state as it was: no id is taken, nothing is sent or parked.
\<close>

theorem foreign_handle_rejected:
  assumes "owner \<noteq> Some (c_sessionId s)"
  shows "sftp_close (HObject hb owner) (Fn cb) s = (Some ''Invalid handle'', s)
    \<and> sftp_read (HObject hb owner) buffer offset len position (Fn cb) s
        = (Some ''Invalid handle'', s)
    \<and> sftp_write (HObject hb owner) buffer offset len position (Fn cb) s
        = (Some ''Invalid handle'', s)
    \<and> sftp_fstat (HObject hb owner) (Fn cb) s = (Some ''Invalid handle'', s)
    \<and> sftp_fsetstat (HObject hb owner) attrs (Fn cb) s = (Some ''Invalid handle'', s)
    \<and> sftp_readdir (HObject hb owner) (Fn cb) s = (Some ''Invalid handle'', s)
    \<and> sftp_fcopy (HObject hb owner) fromPosition len other toPosition (Fn cb) s
        = (Some ''Invalid handle'', s)
    \<and> sftp_fcopy (HObject (Some fh) (Some (c_sessionId s))) fromPosition len (HObject hb owner)
          toPosition (Fn cb) s
        = (Some ''Invalid handle'', s)
    \<and> sftp_fhash (HObject hb owner) alg position len blockSize (Fn cb) s
        = (Some ''Invalid handle'', s)"
proof -
  have h: "toHandle (HObject hb owner) s = Inl ''Invalid handle''"
    using assms by (simp add: toHandle_def split: option.splits)
  have own: "toHandle (HObject (Some fh) (Some (c_sessionId s))) s = Inr fh"
    by (simp add: toHandle_def)
  show ?thesis
    by (simp add: sftp_close_def sftp_read_def sftp_write_def sftp_fstat_def sftp_fsetstat_def
        sftp_readdir_def sftp_fcopy_def sftp_fhash_def checkCallback_def h own)
qed

theorem foreign_handle_rejected_witness:
  "Some 2 \<noteq> Some (c_sessionId session_ready)
   \<and> sftp_close (HObject (Some [0xAB]) (Some 2)) (Fn 1) session_ready
       = (Some ''Invalid handle'', session_ready)
   \<and> sftp_read (HObject (Some [0xAB]) (Some 2)) BFalsy 0 1024 0 (Fn 1) session_ready
       = (Some ''Invalid handle'', session_ready)
   \<and> sftp_write (HObject (Some [0xAB]) (Some 2)) (BBuf [1, 2, 3]) 0 3 0 (Fn 1) session_ready
       = (Some ''Invalid handle'', session_ready)
   \<and> sftp_fcopy (HObject (Some [0xCD]) (Some (c_sessionId session_ready))) 0 10
         (HObject (Some [0xAB]) (Some 2)) 0 (Fn 1) session_ready
       = (Some ''Invalid handle'', session_ready)
   \<and> sent session_ready = [(7, [0, 0, 0, 5, 1, 0, 0, 0, 3])]"
proof -
  have h: "Some 2 \<noteq> Some (c_sessionId session_ready)"
    by (simp add: session_ready_fields)
  from foreign_handle_rejected[OF h, of "Some [0xAB]" 1 _ 0 _ 0 _ 0 _ 0 "[0xCD]"]
  show ?thesis
    using h by (simp add: session_ready_fields)
qed

subsection \<open>Rename\<close>

text \<open>
  Claim C9. When \<^verbatim>\<open>rename\<close> is called with a callback that is a function, paths that pass
  the path check, and a flags value that is neither 0 nor OVERWRITE (and \<^verbatim>\<open>_features\<close>
  holds nothing under the key \<^verbatim>\<open>undefined\<close>), it returns without throwing and leaves the
  state unchanged except for two scheduled calls of the callback, the first with the error
  "Unsupported rename flags", the second, from \<^verbatim>\<open>command\<close>, with the error "Operation not
  supported"; both carry code ENOSYS and errno 35. Nothing is sent, no id is taken.
\<close>

theorem rename_bad_flags_fails_twice:
  assumes "flgs \<noteq> 0" "flgs \<noteq> OVERWRITE"
    and "checkPath pc oldPath0 ''oldPath'' = Inr oldPath"
    and "checkPath pc newPath0 ''newPath'' = Inr newPath"
    and "c_features s ''undefined'' = None"
  shows "sftp_rename OVERWRITE pc oldPath0 newPath0 flgs (Fn cb) s
           = (None,
              s\<lparr>ticks := ticks s @
                  [Call cb [AErr \<lparr>e_code = ''ENOSYS'', e_errno = 35,
                                  e_nativeCode = ST_OP_UNSUPPORTED,
                                  e_description = ''Unsupported rename flags'',
                                  e_info = (info ''rename'')\<lparr>i_oldPath := Some oldPath,
                                     i_newPath := Some newPath, i_flags := Some flgs\<rparr>\<rparr>],
                   Call cb [AErr \<lparr>e_code = ''ENOSYS'', e_errno = 35,
                                  e_nativeCode = ST_OP_UNSUPPORTED,
                                  e_description = ''Operation not supported'',
                                  e_info = (info ''rename'')\<lparr>i_oldPath := Some oldPath,
                                     i_newPath := Some newPath, i_flags := Some flgs\<rparr>\<rparr>]]\<rparr>)"
  using assms
  by (simp add: sftp_rename_def checkCallback_def Let_def command_def nextTick_def
      createError_def st_defs)

theorem rename_bad_flags_fails_twice_witness:
  "(4::int) \<noteq> 0 \<and> (4::int) \<noteq> 1
   \<and> checkPath (\<lambda>p n. Inr p) ''a'' ''oldPath'' = Inr ''a''
   \<and> checkPath (\<lambda>p n. Inr p) ''b'' ''newPath'' = Inr ''b''
   \<and> c_features session_ready ''undefined'' = None
   \<and> (case sftp_rename 1 (\<lambda>p n. Inr p) ''a'' ''b'' 4 (Fn 3) session_ready of
         (thrown, s') \<Rightarrow>
            thrown = None \<and> sent s' = sent session_ready \<and> calls s' = calls session_ready
            \<and> map (\<lambda>c. case c of Call f args \<Rightarrow> f) (ticks s') = [3, 3])"
proof -
  have p1: "checkPath (\<lambda>p n. Inr p) ''a'' ''oldPath'' = Inr ''a''"
    by (simp add: checkPath_def bnd_def)
  have p2: "checkPath (\<lambda>p n. Inr p) ''b'' ''newPath'' = Inr ''b''"
    by (simp add: checkPath_def bnd_def)
  have u: "c_features session_ready ''undefined'' = None"
    by (simp add: session_ready_fields)
  have f: "(4::int) \<noteq> 0" "(4::int) \<noteq> 1" by simp_all
  from rename_bad_flags_fails_twice[OF f p1 p2 u, of 3]
  show ?thesis
    using p1 p2 u by (simp add: session_ready_fields)
qed

subsection \<open>Empty DATA replies\<close>

text \<open>What \<^verbatim>\<open>parseData\<close> does with a DATA reply of zero bytes, on a bound session whose next
  id is free.\<close>

lemma parseData_empty:
  assumes "r_type response = PT_DATA" "readData (r_buf response) = Inr ([], rest)" "0 \<le> len"
    and "c_host s = Some hst" "c_id s = Some i" "map_of (c_requests s) (Some i) = None"
  shows "parseData response cb retries h buffer offset len position s =
     (if retries > 4 then
        (None, invoke cb [AErr ((createError ST_FAILURE ''Unable to read data'' (r_info response))
                                  \<lparr>e_code := ''EIO'', e_errno := 55\<rparr>), ANull, ANum 0] s)
      else
        (None, s\<lparr>c_id := Some (sint (word_of_int (i + 1) :: 32 word)),
                 sent := sent s @ [(hst, read_request i h position 0)],
                 c_bytesSent := c_bytesSent s + int (length (read_request i h position 0)),
                 c_requests := AList.update (Some i)
                    \<lparr>rq_callback = cb,
                     rq_responseParser = ParseData (retries + 1) h buffer offset 0 position,
                     rq_info = r_info response\<rparr> (c_requests s)\<rparr>))"
proof -
  have g: "getRequest (PNum PT_READ) s
             = (Inr \<lparr>w_type = PNum PT_READ, w_id = Some i, w_buf = []\<rparr>,
                s\<lparr>c_id := Some (sint (word_of_int (i + 1) :: 32 word))\<rparr>)"
    using assms by (intro getRequest_next) (simp_all add: pt_defs)
  have w: "writeInt32 0 (writeInt64 position
             (writeData h \<lparr>w_type = PNum PT_READ, w_id = Some i, w_buf = []\<rparr>))
            = \<lparr>w_type = PNum PT_READ, w_id = Some i,
               w_buf = enc_data h @ enc_int64 position @ enc_int32 0\<rparr>"
    by (simp add: writeInt32_def writeInt64_def writeData_def writeBytes_def)
  have ns: "r_type response \<noteq> PT_STATUS"
    using assms by (simp add: pt_defs)
  have e: "execute \<lparr>w_type = PNum PT_READ, w_id = Some i,
                 w_buf = enc_data h @ enc_int64 position @ enc_int32 0\<rparr>
              cb (ParseData (retries + 1) h buffer offset 0 position) (r_info response)
              (s\<lparr>c_id := Some (sint (word_of_int (i + 1) :: 32 word))\<rparr>)
           = (None, s\<lparr>c_id := Some (sint (word_of_int (i + 1) :: 32 word)),
                 sent := sent s @ [(hst, read_request i h position 0)],
                 c_bytesSent := c_bytesSent s + int (length (read_request i h position 0)),
                 c_requests := AList.update (Some i)
                    \<lparr>rq_callback = cb,
                     rq_responseParser = ParseData (retries + 1) h buffer offset 0 position,
                     rq_info = r_info response\<rparr> (c_requests s)\<rparr>)"
    using assms(4,6) by (simp add: execute_def Let_def read_request_def)
  show ?thesis
    using assms(2,3)
    by (simp add: parseData_def ns Let_def g w e del: of_int_add)
qed

text \<open>
  Claim C10. When \<^verbatim>\<open>parseData\<close> receives a zero-byte DATA reply and retries (the retry
  counter is at most 4; the session is bound and the next id is free), the only frame it
  sends is a READ for the same handle and position whose length field is 0, whatever length
  the caller asked for, and the continuation it parks carries length 0 as well, so every
  later retry does the same. The caller's callback is not called.
\<close>

theorem retry_read_has_length_zero:
  assumes "r_type response = PT_DATA" "readData (r_buf response) = Inr ([], rest)"
    and "retries \<le> 4" "0 \<le> len"
    and "c_host s = Some hst" "c_id s = Some i" "map_of (c_requests s) (Some i) = None"
  shows "\<exists>s'. parseData response cb retries h buffer offset len position s = (None, s')
           \<and> sent s' = sent s @ [(hst, finish \<lparr>w_type = PNum PT_READ, w_id = Some i,
                                       w_buf = enc_data h @ enc_int64 position @ enc_int32 0\<rparr>)]
           \<and> map_of (c_requests s') (Some i)
               = Some \<lparr>rq_callback = cb,
                       rq_responseParser = ParseData (retries + 1) h buffer offset 0 position,
                       rq_info = r_info response\<rparr>
           \<and> calls s' = calls s \<and> ticks s' = ticks s"
  using assms(3) parseData_empty[OF assms(1,2,4,5,6,7), of cb retries h buffer offset position]
  by (simp add: read_request_def update_conv')

theorem retry_read_has_length_zero_witness:
  "(r_type \<lparr>r_type = PT_DATA, r_id = Some 1, r_buf = enc_data [], r_info = info ''read''\<rparr>
      = PT_DATA
    \<and> readData (r_buf \<lparr>r_type = PT_DATA, r_id = Some 1, r_buf = enc_data [],
                        r_info = info ''read''\<rparr>) = Inr ([], [])
    \<and> (3::int) \<le> 4 \<and> (0::int) \<le> 1024
    \<and> c_host session_ready = Some 7 \<and> c_id session_ready = Some 1
    \<and> map_of (c_requests session_ready) (Some 1) = None)
   \<and> (\<exists>s'. parseData \<lparr>r_type = PT_DATA, r_id = Some 1, r_buf = enc_data [],
                        r_info = info ''read''\<rparr> 2 3 [0xAB] None 0 1024 0 session_ready
               = (None, s')
           \<and> sent s' = sent session_ready
                 @ [(7, [0, 0, 0, 22, 5, 0, 0, 0, 1, 0, 0, 0, 1, 0xAB,
                         0, 0, 0, 0, 0, 0, 0, 0, 0, 0, 0, 0])])"
proof -
  let ?r = "\<lparr>r_type = PT_DATA, r_id = Some 1, r_buf = enc_data [], r_info = info ''read''\<rparr>"
  have a: "r_type ?r = PT_DATA" by simp
  have b: "readData (r_buf ?r) = Inr ([], [])" by (simp add: readData_empty)
  have c: "(3::int) \<le> 4" "(0::int) \<le> 1024" by simp_all
  have d: "c_host session_ready = Some 7" "c_id session_ready = Some 1"
    "map_of (c_requests session_ready) (Some 1) = None"
    by (simp_all add: session_ready_fields)
  have f: "finish \<lparr>w_type = PNum PT_READ, w_id = Some 1,
                    w_buf = enc_data [0xAB] @ enc_int64 0 @ enc_int32 0\<rparr>
             = [0, 0, 0, 22, 5, 0, 0, 0, 1, 0, 0, 0, 1, 0xAB, 0, 0, 0, 0, 0, 0, 0, 0, 0, 0, 0, 0]"
    by (simp add: finish_def Let_def js_num_def pt_defs codec_eval)
  from retry_read_has_length_zero[OF a b c d, of 2 "[0xAB]" None 0 0]
  show ?thesis
    using a b d unfolding f by auto
qed

subsection \<open>The retry limit\<close>

lemma deliver_append: "deliver (xs @ ys) s = deliver ys (deliver xs s)"
  by (induction xs arbitrary: s) simp_all

text \<open>The ids of requests made in a row stay within the signed 32-bit range, and as long as
  the counter does not wrap they are consecutive.\<close>

lemma nth_id_range:
  assumes "- (2^31) \<le> i" "i < 2^31"
  shows "- (2^31) \<le> nth_id i k \<and> nth_id i k < 2^31"
proof (cases k)
  case 0
  then show ?thesis using assms by simp
next
  case (Suc n)
  have "- (2^31) \<le> sint (word_of_int (nth_id i n + 1) :: 32 word)"
    using sint_ge[of "word_of_int (nth_id i n + 1) :: 32 word"] by simp
  moreover have "sint (word_of_int (nth_id i n + 1) :: 32 word) < 2^31"
    using sint_lt[of "word_of_int (nth_id i n + 1) :: 32 word"] by simp
  ultimately show ?thesis
    unfolding Suc nth_id.simps js_and_mask32 by simp
qed

lemma nth_id_consecutive:
  "- (2^31) \<le> i \<Longrightarrow> i + int k < 2^31 \<Longrightarrow> nth_id i k = i + int k"
proof (induction k)
  case 0
  then show ?case by simp
next
  case (Suc k)
  then have ih: "nth_id i k = i + int k" by simp
  have "sint (word_of_int (i + int k + 1) :: 32 word) = i + int k + 1"
    using Suc.prems by (intro sint32_id) simp_all
  then show ?case
    unfolding nth_id.simps js_and_mask32 ih by simp
qed

lemma nth_id_wraps: "nth_id (2^31 - 1) (Suc 0) = - (2^31)"
  by (simp add: js_and_mask32)

text \<open>The counter is a signed 32-bit number from the first request on.\<close>

lemma getRequest_id_range:
  assumes "getRequest t s = (Inr request, s')"
  shows "\<exists>j. c_id s' = Some j \<and> - (2^31) \<le> j \<and> j < 2^31"
proof (cases "t = PNum PT_INIT")
  case True
  then show ?thesis
    using assms by (auto simp add: getRequest_def Let_def split: if_splits)
next
  case False
  let ?w = "word_of_int (js_num (c_id s) + 1) :: 32 word"
  have "c_id s' = Some (sint ?w)"
    using assms False by (auto simp add: getRequest_def Let_def js_and_mask32)
  moreover have "- (2^31) \<le> sint ?w" using sint_ge[of ?w] by simp
  moreover have "sint ?w < 2^31" using sint_lt[of ?w] by simp
  ultimately show ?thesis by simp
qed

text \<open>A request table as a list of keys and entries: an entry under a fresh key goes to the
  end, and deleting a key that is not there changes nothing.\<close>

lemma update_fresh: "map_of al k = None \<Longrightarrow> AList.update k v al = al @ [(k, v)]"
  by (induction al) (auto split: if_splits)

lemma delete_last: "map_of al k = None \<Longrightarrow> AList.delete k (al @ [(k, v)]) = al"
  by (induction al) (auto split: if_splits)

lemma map_of_last: "map_of al k = None \<Longrightarrow> map_of (al @ [(k, v)]) k = Some v"
  by (simp add: map_add_def)

lemma core_process_parked_data:
  assumes "c_requests t = rs @ [(Some j, \<lparr>rq_callback = cb,
                rq_responseParser = ParseData r h buf off l pos, rq_info = cinfo\<rparr>)]"
    and "map_of rs (Some j) = None"
    and "- (2^31) \<le> j" "j < 2^31"
  shows "core_process (data_reply j []) t
           = parseData \<lparr>r_type = PT_DATA, r_id = Some j, r_buf = enc_data [], r_info = cinfo\<rparr>
               cb r h buf off l pos
               (t\<lparr>c_bytesReceived := c_bytesReceived t + 13, c_requests := rs\<rparr>)"
proof -
  have rd: "new_SftpPacketReader (data_reply j [])
              = Inr \<lparr>r_type = PT_DATA, r_id = Some j, r_buf = enc_data []\<rparr>"
    using assms by (intro reader_data_reply) simp_all
  have m: "map_of (c_requests t) (Some j)
             = Some \<lparr>rq_callback = cb, rq_responseParser = ParseData r h buf off l pos,
                     rq_info = cinfo\<rparr>"
    unfolding assms(1) by (rule map_of_last[OF assms(2)])
  have d: "AList.delete (Some j) (c_requests t) = rs"
    unfolding assms(1) by (rule delete_last[OF assms(2)])
  show ?thesis
    by (simp add: core_process_def Let_def rd run_parser_def length_data_reply m d)
qed

text \<open>Once the retries are used up, \<^verbatim>\<open>parseData\<close> asks for no further id.\<close>

lemma parseData_exhausted:
  assumes "r_type response = PT_DATA" "readData (r_buf response) = Inr ([], rest)" "0 \<le> len"
    and "retries > 4"
  shows "parseData response cb retries h buffer offset len position s =
           (None, invoke cb [AErr ((createError ST_FAILURE ''Unable to read data'' (r_info response))
                                     \<lparr>e_code := ''EIO'', e_errno := 55\<rparr>), ANull, ANum 0] s)"
proof -
  have ns: "r_type response \<noteq> PT_STATUS"
    using assms by (simp add: pt_defs)
  show ?thesis
    using assms(2,3,4) by (simp add: parseData_def ns Let_def)
qed

lemma retry_inv_step:
  assumes inv: "retry_inv s hst i cb h buf off len' pos cinfo k t"
    and k: "k \<le> 4" and i: "- (2^31) \<le> i" "i < 2^31" and len: "0 \<le> len'"
    and free: "map_of (c_requests s) (Some (nth_id i k)) = None"
      "map_of (c_requests s) (Some (nth_id i (Suc k))) = None"
  shows "retry_inv s hst i cb h buf off len' pos cinfo (Suc k)
           (on_message (data_reply (nth_id i k) []) t)"
proof -
  let ?t' = "t\<lparr>c_bytesReceived := c_bytesReceived t + 13, c_requests := c_requests s\<rparr>"
  let ?resp = "\<lparr>r_type = PT_DATA, r_id = Some (nth_id i k), r_buf = enc_data [], r_info = cinfo\<rparr>"
  let ?l = "if k = 0 then len' else 0"
  let ?j = "nth_id i (Suc k)"
  from inv have req: "c_requests t = c_requests s @ [(Some (nth_id i k), \<lparr>rq_callback = cb,
        rq_responseParser = ParseData (int k) h buf off ?l pos, rq_info = cinfo\<rparr>)]"
    and host: "c_host t = Some hst" and id: "c_id t = Some ?j"
    by (simp_all add: retry_inv_def)
  have cp: "core_process (data_reply (nth_id i k) []) t
              = parseData ?resp cb (int k) h buf off ?l pos ?t'"
    using nth_id_range[OF i, of k] by (intro core_process_parked_data[OF req free(1)]) simp_all
  have l0: "0 \<le> ?l" using len by simp
  have pd: "parseData ?resp cb (int k) h buf off ?l pos ?t' =
        (None, ?t'\<lparr>c_id := Some (sint (word_of_int (?j + 1) :: 32 word)),
                 sent := sent ?t' @ [(hst, read_request ?j h pos 0)],
                 c_bytesSent := c_bytesSent ?t' + int (length (read_request ?j h pos 0)),
                 c_requests := AList.update (Some ?j)
                    \<lparr>rq_callback = cb,
                     rq_responseParser = ParseData (int k + 1) h buf off 0 pos,
                     rq_info = r_info ?resp\<rparr> (c_requests ?t')\<rparr>)"
    using k host id l0 free(2)
    by (subst parseData_empty[where rest="[]" and hst=hst and i="?j"])
       (simp_all add: readData_empty)
  have nid: "sint (word_of_int (?j + 1) :: 32 word) = nth_id i (Suc (Suc k))"
    by (simp only: nth_id.simps js_and_mask32)
  have upd: "AList.update (Some ?j)
                    \<lparr>rq_callback = cb,
                     rq_responseParser = ParseData (int k + 1) h buf off 0 pos,
                     rq_info = r_info ?resp\<rparr> (c_requests ?t')
             = c_requests s @ [(Some ?j, \<lparr>rq_callback = cb,
                     rq_responseParser = ParseData (int (Suc k)) h buf off 0 pos,
                     rq_info = cinfo\<rparr>)]"
    using update_fresh[OF free(2)] by (simp add: add.commute)
  have res: "on_message (data_reply (nth_id i k) []) t =
        ?t'\<lparr>c_id := Some (nth_id i (Suc (Suc k))),
              sent := sent ?t' @ [(hst, read_request ?j h pos 0)],
              c_bytesSent := c_bytesSent ?t' + int (length (read_request ?j h pos 0)),
              c_requests := c_requests s @ [(Some ?j, \<lparr>rq_callback = cb,
                     rq_responseParser = ParseData (int (Suc k)) h buf off 0 pos,
                     rq_info = cinfo\<rparr>)]\<rparr>"
    unfolding on_message_def cp pd nid upd by simp
  show ?thesis
    unfolding res using inv
    by (simp add: retry_inv_def del: nth_id.simps)
qed

lemma retry_inv_deliver:
  assumes inv: "retry_inv s hst i cb h buf off len' pos cinfo 0 t0"
    and i: "- (2^31) \<le> i" "i < 2^31" and len: "0 \<le> len'"
    and free: "\<forall>k\<le>5. map_of (c_requests s) (Some (nth_id i k)) = None"
  shows "k \<le> 5 \<Longrightarrow>
           retry_inv s hst i cb h buf off len' pos cinfo k (deliver (empty_replies i k) t0)"
proof (induction k)
  case 0
  then show ?case using inv by (simp add: empty_replies_def)
next
  case (Suc k)
  then have a: "retry_inv s hst i cb h buf off len' pos cinfo k (deliver (empty_replies i k) t0)"
    and b: "k \<le> 4" by simp_all
  have f: "map_of (c_requests s) (Some (nth_id i k)) = None"
    "map_of (c_requests s) (Some (nth_id i (Suc k))) = None"
    using free[rule_format, of k] free[rule_format, of "Suc k"] Suc.prems
    by (simp_all del: nth_id.simps)
  from retry_inv_step[OF a b i len f] show ?case
    by (simp add: empty_replies_def deliver_append del: nth_id.simps)
qed

lemma retry_inv_final:
  assumes inv: "retry_inv s hst i cb h buf off len' pos cinfo 5 t"
    and i: "- (2^31) \<le> i" "i < 2^31"
    and free: "map_of (c_requests s) (Some (nth_id i 5)) = None"
  shows "on_message (data_reply (nth_id i 5) []) t =
           invoke cb [AErr ((createError ST_FAILURE ''Unable to read data'' cinfo)
                               \<lparr>e_code := ''EIO'', e_errno := 55\<rparr>), ANull, ANum 0]
             (t\<lparr>c_bytesReceived := c_bytesReceived t + 13, c_requests := c_requests s\<rparr>)"
proof -
  let ?t' = "t\<lparr>c_bytesReceived := c_bytesReceived t + 13, c_requests := c_requests s\<rparr>"
  let ?resp = "\<lparr>r_type = PT_DATA, r_id = Some (nth_id i 5), r_buf = enc_data [], r_info = cinfo\<rparr>"
  from inv have req: "c_requests t = c_requests s @ [(Some (nth_id i 5), \<lparr>rq_callback = cb,
        rq_responseParser = ParseData 5 h buf off 0 pos, rq_info = cinfo\<rparr>)]"
    by (simp add: retry_inv_def del: nth_id.simps)
  have cp: "core_process (data_reply (nth_id i 5) []) t = parseData ?resp cb 5 h buf off 0 pos ?t'"
    using nth_id_range[OF i, of 5] by (intro core_process_parked_data[OF req free]) simp_all
  have pd: "parseData ?resp cb 5 h buf off 0 pos ?t' =
        (None, invoke cb [AErr ((createError ST_FAILURE ''Unable to read data'' (r_info ?resp))
                                  \<lparr>e_code := ''EIO'', e_errno := 55\<rparr>), ANull, ANum 0] ?t')"
    by (intro parseData_exhausted[where rest="[]"]) (simp_all add: readData_empty)
  show ?thesis
    unfolding on_message_def cp pd by simp
qed

text \<open>A call of \<^verbatim>\<open>read\<close> that passes the argument checks, on a bound session whose next id
  is free, returns without throwing; it has sent the READ and parked its continuation.\<close>

lemma read_starts_retry_inv:
  assumes "c_host s = Some hst" "c_id s = Some i"
    and "map_of (c_requests s) (Some i) = None"
    and "toHandle handle s = Inr h"
    and "buffer = BFalsy \<or> checkBuffer buffer offset len = Inr b"
    and "checkPosition position = None"
  shows "fst (sftp_read handle buffer offset len position (Fn cb) s) = None
         \<and> retry_inv s hst i cb h (if buffer = BFalsy then None else Some b) offset
             (if len > c_maxReadBlockLength s then c_maxReadBlockLength s else len) position
             ((info ''read'')\<lparr>i_handle := Some handle\<rparr>) 0
             (snd (sftp_read handle buffer offset len position (Fn cb) s))"
proof -
  have g: "getRequest (PNum PT_READ) s
             = (Inr \<lparr>w_type = PNum PT_READ, w_id = Some i, w_buf = []\<rparr>,
                s\<lparr>c_id := Some (nth_id i (Suc 0))\<rparr>)"
    using assms(2) by (simp add: getRequest_def js_num_def pt_defs)
  have bc: "(if buffer \<noteq> BFalsy then bnd (checkBuffer buffer offset len) (\<lambda>b. Inr (Some b))
             else Inr None) = Inr (if buffer = BFalsy then None else Some b)"
    using assms(5) by (auto simp add: bnd_def)
  show ?thesis
    using assms(1,3,4,6) unfolding sftp_read_def g bc
    by (simp add: checkCallback_def Let_def execute_def retry_inv_def update_fresh
        read_request_def writeInt32_def writeInt64_def writeData_def writeBytes_def
        del: nth_id.simps(2))
qed

text \<open>The session while that \<^verbatim>\<open>open\<close> is pending.\<close>

lemma first_open_fields:
  "fst first_open = None" "c_sessionId (snd first_open) = 1" "c_host (snd first_open) = Some 7"
  "c_id (snd first_open) = Some 2" "map fst (c_requests (snd first_open)) = [Some 1]"
  "c_maxReadBlockLength (snd first_open) = 262144"
  "calls (snd first_open) = [Call 0 [ANull]]" "emitted (snd first_open) = []"
  "length (sent (snd first_open)) = 2"
proof -
  have g: "getRequest (PNum PT_OPEN) session_ready
             = (Inr \<lparr>w_type = PNum PT_OPEN, w_id = Some 1, w_buf = []\<rparr>,
                session_ready\<lparr>c_id := Some (sint (word_of_int (1 + 1) :: 32 word))\<rparr>)"
    by (intro getRequest_next) (simp_all add: session_ready_fields pt_defs)
  have n: "toNumber (FlagsStr ''r'') = Inr 1"
    by (simp add: toNumber_def open_flag_defs)
  have w: "writeStats (writeInt32 1
                         (writeString ''/a'' \<lparr>w_type = PNum PT_OPEN, w_id = Some 1, w_buf = []\<rparr>)) None
             = Inr \<lparr>w_type = PNum PT_OPEN, w_id = Some 1,
                    w_buf = enc_string ''/a'' @ enc_int32 1 @ enc_int32 0\<rparr>"
    by (simp add: writeStats_def SftpAttributes_from_def SftpAttributes_write_def
        new_SftpAttributes_def Let_def js_and_def attr_flag_defs writeInt32_def writeString_def
        writeBytes_def bnd_def)
  have e: "first_open =
             execute \<lparr>w_type = PNum PT_OPEN, w_id = Some 1,
                      w_buf = enc_string ''/a'' @ enc_int32 1 @ enc_int32 0\<rparr> 1 ParseHandle
               ((info ''open'')\<lparr>i_path := Some ''/a''\<rparr>)
               (session_ready\<lparr>c_id := Some (sint (word_of_int (1 + 1) :: 32 word))\<rparr>)"
    unfolding first_open_def sftp_open_def
    by (simp add: checkCallback_def checkPath_def bnd_def g n w)
  show "fst first_open = None" "c_sessionId (snd first_open) = 1"
    "c_host (snd first_open) = Some 7" "c_id (snd first_open) = Some 2"
    "map fst (c_requests (snd first_open)) = [Some 1]"
    "c_maxReadBlockLength (snd first_open) = 262144"
    "calls (snd first_open) = [Call 0 [ANull]]" "emitted (snd first_open) = []"
    "length (sent (snd first_open)) = 2"
    unfolding e by (simp_all add: execute_def Let_def session_ready_fields)
qed

text \<open>
  Claim C3, as the code has it. Take a bound session whose id counter holds \<open>i\<close> (a signed
  32-bit number, as the counter is from the first request on), with any requests parked,
  where the ids of the next six requests are free (\<^verbatim>\<open>execute\<close> refuses an id that is still
  in use). Take any call of \<^verbatim>\<open>read\<close> that gets past the argument checks: a handle of the
  session, no buffer or a buffer that \<^verbatim>\<open>checkBuffer\<close> accepts, a position that
  \<^verbatim>\<open>checkPosition\<close> accepts, and a length that is not negative (\<^verbatim>\<open>read\<close> checks the
  length only when there is a buffer, and \<^verbatim>\<open>parseData\<close> refuses even an empty reply to a
  negative length as too much data; the read block limit, a constant of the session, is not
  negative either). The call returns without throwing. If the replies to the READ and to
  its re-submissions are zero-byte DATA packets, then after \<open>k\<close> replies, for each \<open>k\<close> up
  to 5, the engine has sent the READ and \<open>k\<close> re-submissions of it and has not called the
  callback: the READ is re-submitted 5 times. The sixth empty reply sends nothing more and
  gives the callback an error with code EIO and errno 55; the requests that were parked
  before are still parked and no error event is emitted.
\<close>

theorem empty_data_retry_limit:
  assumes "c_host s = Some hst" "c_id s = Some i" "- (2^31) \<le> i" "i < 2^31"
    and "\<forall>k\<le>5. map_of (c_requests s) (Some (nth_id i k)) = None"
    and "toHandle handle s = Inr h"
    and "buffer = BFalsy \<or> checkBuffer buffer offset len = Inr b"
    and "checkPosition position = None" "0 \<le> len" "0 \<le> c_maxReadBlockLength s"
  shows "(let s0 = snd (sftp_read handle buffer offset len position (Fn cb) s);
              len' = (if len > c_maxReadBlockLength s then c_maxReadBlockLength s else len);
              err = (createError ST_FAILURE ''Unable to read data''
                       ((info ''read'')\<lparr>i_handle := Some handle\<rparr>))
                    \<lparr>e_code := ''EIO'', e_errno := 55\<rparr>
          in fst (sftp_read handle buffer offset len position (Fn cb) s) = None
             \<and> (\<forall>k\<le>5. sent (deliver (empty_replies i k) s0)
                         = sent s @ (hst, read_request i h position len')
                             # map (\<lambda>j. (hst, read_request (nth_id i j) h position 0)) [1..<Suc k]
                       \<and> calls (deliver (empty_replies i k) s0) = calls s)
             \<and> sent (deliver (empty_replies i 6) s0) = sent (deliver (empty_replies i 5) s0)
             \<and> calls (deliver (empty_replies i 6) s0) = calls s @ [Call cb [AErr err, ANull, ANum 0]]
             \<and> c_requests (deliver (empty_replies i 6) s0) = c_requests s
             \<and> emitted (deliver (empty_replies i 6) s0) = emitted s)"
proof -
  define s0 where "s0 = snd (sftp_read handle buffer offset len position (Fn cb) s)"
  define len' where "len' = (if len > c_maxReadBlockLength s then c_maxReadBlockLength s else len)"
  define cinfo where "cinfo = (info ''read'')\<lparr>i_handle := Some handle\<rparr>"
  define buf where "buf = (if buffer = BFalsy then None else Some b)"
  have len': "0 \<le> len'"
    using assms(9,10) by (simp add: len'_def)
  have free0: "map_of (c_requests s) (Some i) = None"
    using assms(5)[rule_format, of 0] by simp
  have free5: "map_of (c_requests s) (Some (nth_id i 5)) = None"
    using assms(5)[rule_format, of 5] by simp
  have start: "fst (sftp_read handle buffer offset len position (Fn cb) s) = None
               \<and> retry_inv s hst i cb h buf offset len' position cinfo 0 s0"
    unfolding s0_def len'_def cinfo_def buf_def
    by (rule read_starts_retry_inv[OF assms(1,2) free0 assms(6,7,8)])
  then have inv0: "retry_inv s hst i cb h buf offset len' position cinfo 0 s0" by simp
  have invk: "retry_inv s hst i cb h buf offset len' position cinfo k
                (deliver (empty_replies i k) s0)" if "k \<le> 5" for k
    using retry_inv_deliver[OF inv0 assms(3,4) len' assms(5) that] .
  have upto5: "\<forall>k\<le>5. sent (deliver (empty_replies i k) s0)
                         = sent s @ (hst, read_request i h position len')
                             # map (\<lambda>j. (hst, read_request (nth_id i j) h position 0)) [1..<Suc k]
                       \<and> calls (deliver (empty_replies i k) s0) = calls s"
    using invk by (simp add: retry_inv_def del: nth_id.simps)
  have six: "deliver (empty_replies i 6) s0
               = on_message (data_reply (nth_id i 5) []) (deliver (empty_replies i 5) s0)"
  proof -
    have "(6::nat) = Suc 5" by simp
    then have "[0..<6] = [0..<5] @ [5::nat]"
      by (simp only: upt_Suc_append le0)
    then have "empty_replies i 6 = empty_replies i 5 @ [data_reply (nth_id i 5) []]"
      by (simp add: empty_replies_def)
    then show ?thesis by (simp add: deliver_append)
  qed
  have fin: "deliver (empty_replies i 6) s0 =
           invoke cb [AErr ((createError ST_FAILURE ''Unable to read data'' cinfo)
                               \<lparr>e_code := ''EIO'', e_errno := 55\<rparr>), ANull, ANum 0]
             ((deliver (empty_replies i 5) s0)
                \<lparr>c_bytesReceived := c_bytesReceived (deliver (empty_replies i 5) s0) + 13,
                 c_requests := c_requests s\<rparr>)"
    unfolding six by (rule retry_inv_final[OF invk[of 5] assms(3,4) free5]) simp
  have inv5: "calls (deliver (empty_replies i 5) s0) = calls s"
    "emitted (deliver (empty_replies i 5) s0) = emitted s"
    using invk[of 5] by (simp_all add: retry_inv_def)
  have last: "sent (deliver (empty_replies i 6) s0) = sent (deliver (empty_replies i 5) s0)
      \<and> calls (deliver (empty_replies i 6) s0)
          = calls s @ [Call cb [AErr ((createError ST_FAILURE ''Unable to read data'' cinfo)
                               \<lparr>e_code := ''EIO'', e_errno := 55\<rparr>), ANull, ANum 0]]
      \<and> c_requests (deliver (empty_replies i 6) s0) = c_requests s
      \<and> emitted (deliver (empty_replies i 6) s0) = emitted s"
    unfolding fin by (simp add: invoke_def inv5)
  show ?thesis
    using start upto5 last
    unfolding Let_def s0_def[symmetric] len'_def[symmetric] cinfo_def[symmetric]
    by blast
qed

text \<open>The same at work: a read with a buffer of four bytes, called while the \<^verbatim>\<open>open\<close> of
  the scenario is still parked under id 1. The read takes id 2 and its re-submissions the
  ids 3 to 7; after five empty replies eight frames have been sent in all (INIT, OPEN, READ
  and five re-submissions) and the caller has heard nothing; the sixth gives callback 2 the
  EIO error and leaves the \<^verbatim>\<open>open\<close> parked.\<close>

theorem empty_data_retry_limit_witness:
  "(c_host (snd first_open) = Some 7 \<and> c_id (snd first_open) = Some 2
    \<and> - (2^31) \<le> (2::int) \<and> (2::int) < 2^31
    \<and> map fst (c_requests (snd first_open)) = [Some 1]
    \<and> map (nth_id 2) [0, 1, 2, 3, 4, 5] = [2, 3, 4, 5, 6, 7]
    \<and> toHandle (HObject (Some [0xAB]) (Some 1)) (snd first_open) = Inr [0xAB]
    \<and> checkBuffer (BBuf [0, 0, 0, 0]) 0 4 = Inr [0, 0, 0, 0]
    \<and> checkPosition 0 = None \<and> (0::int) \<le> 4 \<and> 0 \<le> c_maxReadBlockLength (snd first_open))
   \<and> calls (deliver (empty_replies 2 5) busy_read) = [Call 0 [ANull]]
   \<and> length (sent (deliver (empty_replies 2 5) busy_read)) = 8
   \<and> sent (deliver (empty_replies 2 6) busy_read) = sent (deliver (empty_replies 2 5) busy_read)
   \<and> (\<exists>err. calls (deliver (empty_replies 2 6) busy_read)
                = [Call 0 [ANull], Call 2 [AErr err, ANull, ANum 0]]
             \<and> e_code err = ''EIO'' \<and> e_errno err = 55)
   \<and> map fst (c_requests (deliver (empty_replies 2 6) busy_read)) = [Some 1]"
proof -
  have n: "nth_id 2 k = 2 + int k" if "k \<le> 5" for k
    using that by (intro nth_id_consecutive) simp_all
  have ids: "map (nth_id 2) [0, 1, 2, 3, 4, 5] = [2, 3, 4, 5, 6, 7]"
    by (simp add: n del: nth_id.simps)
  have free: "\<forall>k\<le>5. map_of (c_requests (snd first_open)) (Some (nth_id 2 k)) = None"
  proof (intro allI impI)
    fix k :: nat assume "k \<le> 5"
    then have "Some (nth_id 2 k) \<notin> set (map fst (c_requests (snd first_open)))"
      by (simp add: first_open_fields n)
    then show "map_of (c_requests (snd first_open)) (Some (nth_id 2 k)) = None"
      by (simp add: map_of_eq_None_iff)
  qed
  have h1: "c_host (snd first_open) = Some 7" "c_id (snd first_open) = Some 2"
    "- (2^31) \<le> (2::int)" "(2::int) < 2^31"
    by (simp_all add: first_open_fields)
  have h2: "toHandle (HObject (Some [0xAB]) (Some 1)) (snd first_open) = Inr [0xAB]"
    by (simp add: toHandle_def first_open_fields)
  have h3: "BBuf [0, 0, 0, 0] = BFalsy \<or> checkBuffer (BBuf [0, 0, 0, 0]) 0 4 = Inr [0, 0, 0, 0]"
    by (simp add: checkBuffer_def)
  have h4: "checkPosition 0 = None" "(0::int) \<le> 4" "0 \<le> c_maxReadBlockLength (snd first_open)"
    by (simp_all add: first_open_fields checkPosition_def)
  from empty_data_retry_limit[OF h1 free h2 h3 h4, of 2]
  show ?thesis
    using h1 h2 h3 h4 ids
    by (simp add: Let_def first_open_fields busy_read_def n del: nth_id.simps)
qed

text \<open>
  Claim C3 as stated fails: in the scenario, after five zero-byte replies the engine has
  sent the READ (id 1, length 1024) and five re-submissions of it (ids 2 to 6, length 0),
  one more than four, and the caller (callback 2) has not been called yet.
\<close>

theorem four_retries_counterexample:
  "map snd (sent (deliver (empty_replies 1 5) first_read))
     = [[0, 0, 0, 5, 1, 0, 0, 0, 3],
        [0, 0, 0, 22, 5, 0, 0, 0, 1, 0, 0, 0, 1, 0xAB, 0, 0, 0, 0, 0, 0, 0, 0, 0, 0, 4, 0],
        [0, 0, 0, 22, 5, 0, 0, 0, 2, 0, 0, 0, 1, 0xAB, 0, 0, 0, 0, 0, 0, 0, 0, 0, 0, 0, 0],
        [0, 0, 0, 22, 5, 0, 0, 0, 3, 0, 0, 0, 1, 0xAB, 0, 0, 0, 0, 0, 0, 0, 0, 0, 0, 0, 0],
        [0, 0, 0, 22, 5, 0, 0, 0, 4, 0, 0, 0, 1, 0xAB, 0, 0, 0, 0, 0, 0, 0, 0, 0, 0, 0, 0],
        [0, 0, 0, 22, 5, 0, 0, 0, 5, 0, 0, 0, 1, 0xAB, 0, 0, 0, 0, 0, 0, 0, 0, 0, 0, 0, 0],
        [0, 0, 0, 22, 5, 0, 0, 0, 6, 0, 0, 0, 1, 0xAB, 0, 0, 0, 0, 0, 0, 0, 0, 0, 0, 0, 0]]
   \<and> calls (deliver (empty_replies 1 5) first_read) = [Call 0 [ANull]]
   \<and> map fst (c_requests (deliver (empty_replies 1 5) first_read)) = [Some 6]"
proof -
  have n: "nth_id 1 k = 1 + int k" if "k \<le> 6" for k
    using that by (intro nth_id_consecutive) simp_all
  have h: "c_host session_ready = Some 7" "c_id session_ready = Some 1"
    "map_of (c_requests session_ready) (Some 1) = None"
    "toHandle (HObject (Some [0xAB]) (Some 1)) session_ready = Inr [0xAB]"
    "BFalsy = BFalsy \<or> checkBuffer BFalsy 0 1024 = Inr []"
    "checkPosition 0 = None"
    by (simp_all add: session_ready_fields checkPosition_def toHandle_def)
  have inv0: "retry_inv session_ready 7 1 2 [0xAB] None 0 1024 0
                ((info ''read'')\<lparr>i_handle := Some (HObject (Some [0xAB]) (Some 1))\<rparr>) 0 first_read"
    using read_starts_retry_inv[OF h, of 2]
    by (simp add: session_ready_fields first_read_def)
  have inv5: "retry_inv session_ready 7 1 2 [0xAB] None 0 1024 0
                ((info ''read'')\<lparr>i_handle := Some (HObject (Some [0xAB]) (Some 1))\<rparr>) 5
                (deliver (empty_replies 1 5) first_read)"
    by (rule retry_inv_deliver[OF inv0]) (simp_all add: session_ready_fields)
  have r: "read_request j [0xAB] 0 l
             = enc_int32 22 @ [5] @ enc_int32 j @ [0, 0, 0, 1, 0xAB, 0, 0, 0, 0, 0, 0, 0, 0]
                 @ enc_int32 l" for j l
    by (simp add: read_request_def finish_def Let_def js_num_def pt_defs enc_byte_def
        enc_data_def enc_int64_def be_bytes64_def) (simp add: enc_int32_def be_bytes32_def)
  have u: "[1..<Suc 5] = [1, 2, 3, 4, 5::nat]"
    by (simp add: upt_rec)
  show ?thesis
    using inv5 unfolding retry_inv_def u
    by (simp add: session_ready_fields r n del: nth_id.simps)
       (simp add: enc_int32_def be_bytes32_def)
qed

end
